theory Spec2Isabelle
  imports Complex_Main
begin

section \<open>Tokens, claims and time\<close>

text \<open>
  The authentication transport wrapper of the SDK keeps an access token and a refresh
  token, decides on every call whether they can still be used, and otherwise asks the
  token endpoint for new ones.  This theory embeds that logic.

  Instants are nanoseconds since the Unix epoch, durations are nanoseconds.  The Go
  library keeps an instant as seconds counted from the year 1, in 64 bits, and a duration
  as nanoseconds in 64 bits; the model writes out where these wrap around or saturate.
\<close>

type_synonym Time = int
type_synonym Duration = int

definition Second :: Duration where
  "Second = 1000000000"

definition Minute :: Duration where
  "Minute = 60 * Second"

definition maxDuration :: Duration where
  "maxDuration = 2 ^ 63 - 1"

definition minDuration :: Duration where
  "minDuration = - (2 ^ 63)"

text \<open>A 64 bit signed integer: the value that is left after wrapping around.\<close>

definition wrap64 :: "int \<Rightarrow> int" where
  "wrap64 i = (i + 2 ^ 63) mod 2 ^ 64 - 2 ^ 63"

text \<open>The seconds from the year 1 to the Unix epoch.\<close>

definition unixToInternal :: int where
  "unixToInternal = 62135596800"

text \<open>
  \<open>time.Unix(sec, 0)\<close>, for a 64 bit \<open>sec\<close>: the library stores \<open>sec + unixToInternal\<close> in 64
  bits, so for the largest values of \<open>sec\<close> the sum wraps around and the instant lies in
  the remote past.
\<close>

definition Unix :: "int \<Rightarrow> Time" where
  "Unix sec = (wrap64 (sec + unixToInternal) - unixToInternal) * Second"

text \<open>
  \<open>t.Sub(u)\<close>: the difference, or the largest (smallest) duration when it does not fit.
  The library computes the difference in 64 bits, checks it by adding it back to \<open>u\<close>, and
  otherwise decides by the order of the two instants.
\<close>

definition Sub :: "Time \<Rightarrow> Time \<Rightarrow> Duration" where
  "Sub t u =
     (let d = t - u
      in if maxDuration < d then maxDuration
         else if d < minDuration then minDuration
         else d)"

text \<open>
  A claim is a decoded JSON value.  The parser of the wrapper does not ask for JSON
  numbers to be kept as text, so every number arrives as a \<open>float64\<close>; a finite
  \<open>float64\<close> is a rational number, and JSON has no infinities or NaN.
\<close>

datatype claim =
    CNumber rat
  | CString string
  | CBool bool
  | CNull
  | CArray
  | CObject

text \<open>What the \<open>%T\<close> verb prints for a claim.\<close>

fun type_name :: "claim \<Rightarrow> string" where
  "type_name (CNumber _) = ''float64''"
| "type_name (CString _) = ''string''"
| "type_name (CBool _) = ''bool''"
| "type_name CNull = ''<nil>''"
| "type_name CArray = ''[]interface {}''"
| "type_name CObject = ''map[string]interface {}''"

text \<open>
  A parsed token: its text, used verbatim as the credential, and its claims.  Every token
  the wrapper holds was parsed into map claims, so the claims are always a map.
\<close>

record token =
  Raw :: string
  Claims :: "string \<rightharpoonup> claim"

section \<open>Strings\<close>

text \<open>\<open>strconv.Itoa\<close> and the \<open>%d\<close> verb: the decimal digits of an integer.\<close>

definition digit :: "nat \<Rightarrow> char" where
  "digit n = ''0123456789'' ! n"

function Itoa_nat :: "nat \<Rightarrow> string" where
  "Itoa_nat n = (if n < 10 then [digit n] else Itoa_nat (n div 10) @ [digit (n mod 10)])"
  by pat_completeness auto
termination
  by (relation "measure id") auto

declare Itoa_nat.simps [simp del]

definition Itoa :: "int \<Rightarrow> string" where
  "Itoa i = (if i < 0 then CHR ''-'' # Itoa_nat (nat (- i)) else Itoa_nat (nat i))"

text \<open>\<open>strings.Join\<close>.\<close>

fun Join :: "string list \<Rightarrow> string \<Rightarrow> string" where
  "Join [] sep = []"
| "Join [x] sep = x"
| "Join (x # y # ys) sep = x @ sep @ Join (y # ys) sep"

text \<open>
  \<open>strings.EqualFold\<close>, for a second argument of ASCII characters, as in every call of
  the source.  The strings are UTF-8: a byte below 128 is a character of its own and
  matches the other character up to the case of the letters A to Z.  A character outside
  ASCII matches an ASCII character only when it belongs to the same orbit of simple case
  folding, and there are two such characters: the long s (U+017F, bytes C5 BF) with \<open>s\<close>
  and \<open>S\<close>, and the Kelvin sign (U+212A, bytes E2 84 AA) with \<open>k\<close> and \<open>K\<close>.  Any other
  byte sequence, well formed or not, is a character that matches no ASCII one.
\<close>

definition lower :: "char \<Rightarrow> char" where
  "lower c =
     (case map_of (zip ''ABCDEFGHIJKLMNOPQRSTUVWXYZ'' ''abcdefghijklmnopqrstuvwxyz'') c of
        Some l \<Rightarrow> l
      | None \<Rightarrow> c)"

fun EqualFold :: "string \<Rightarrow> string \<Rightarrow> bool" where
  "EqualFold [] t = (t = [])"
| "EqualFold (c # s) [] = False"
| "EqualFold (c # s) (p # t) =
     (if \<not> digit7 c then lower c = lower p \<and> EqualFold s t
      else
        (case s of
           [] \<Rightarrow> False
         | d # s1 \<Rightarrow>
             if c = CHR 0xC5 \<and> d = CHR 0xBF then lower p = CHR ''s'' \<and> EqualFold s1 t
             else
               (case s1 of
                  [] \<Rightarrow> False
                | e # s2 \<Rightarrow>
                    c = CHR 0xE2 \<and> d = CHR 0x84 \<and> e = CHR 0xAA \<and>
                    lower p = CHR ''k'' \<and> EqualFold s2 t)))"

section \<open>The wrapper and its environment\<close>

text \<open>
  The wrapper, as \<open>Build\<close> populates it.  The logger, the client selector, the token
  server address and the mutex are handles of collaborators; what they do is part of the
  environment below.  A metric is either created (\<open>True\<close>) or absent.
\<close>

record TransportWrapper =
  clientID :: string
  clientSecret :: string
  user :: string
  password :: string
  scopes :: "string list"
  agent :: string
  tokenURL :: string
  accessToken :: "token option"
  refreshToken :: "token option"
  metricsSubsystem :: string
  tokenCountMetric :: bool
  tokenDurationMetric :: bool

text \<open>A form: \<open>url.Values\<close> filled with \<open>Set\<close>, one value for each key.\<close>

type_synonym form = "string \<rightharpoonup> string"

text \<open>The fields of the decoded JSON body that the wrapper reads.\<close>

record TokenResponse =
  Error :: "string option"
  ErrorDescription :: "string option"
  TokenType :: "string option"
  AccessToken :: "string option"
  RefreshToken :: "string option"

text \<open>
  An HTTP response as the wrapper sees it: the status code, the verdict of the content
  type check, of reading the body and of \<open>json.Unmarshal\<close> (an error message, or none), and
  the contents of \<open>result\<close> after unmarshalling.
\<close>

record response =
  StatusCode :: int
  ContentTypeError :: "string option"
  ReadError :: "string option"
  UnmarshalError :: "string option"
  Decoded :: TokenResponse

text \<open>
  The outcome of one token request: no HTTP client could be selected, the client failed
  to produce a response, or a response arrived.
\<close>

datatype reply =
    SelectFailed string
  | DoFailed string
  | Responded response

text \<open>
  The collaborators.  \<open>decode\<close> is the claim decoder of the token parser (an error
  message or the claims); \<open>roundtrip\<close> answers a token request, given all the forms
  submitted so far, the current one last; \<open>Now\<close> is the clock reading of each attempt;
  \<open>retries\<close> is the number of times the back-off policy grants another attempt before it
  stops (its elapsed time is bounded, and so is this number); \<open>ParseServerAddress\<close> and
  \<open>NewClientSelector\<close> return an error message or none; \<open>int64_beyond\<close> is what the
  platform makes of a number too large for 64 bits when it is converted to an integer.
\<close>

datatype ca_source = CertPool | FileName string | OtherValue

record env =
  decode :: "string \<Rightarrow> string + (string \<rightharpoonup> claim)"
  roundtrip :: "form list \<Rightarrow> reply"
  Now :: "int \<Rightarrow> Time"
  retries :: nat
  ParseServerAddress :: "string \<Rightarrow> string option"
  NewClientSelector :: "ca_source list \<Rightarrow> bool \<Rightarrow> string option"
  int64_beyond :: "rat \<Rightarrow> int"

text \<open>
  \<open>ParseUnverified\<close> with map claims: the token keeps the text it was parsed from.
\<close>

definition ParseUnverified :: "env \<Rightarrow> string \<Rightarrow> string + token" where
  "ParseUnverified E text =
     (case decode E text of
        Inl e \<Rightarrow> Inl e
      | Inr c \<Rightarrow> Inr \<lparr>Raw = text, Claims = c\<rparr>)"

text \<open>
  The conversion \<open>int64(exp)\<close> of a \<open>float64\<close> drops the fraction.  For a value whose
  whole part does not fit 64 bits the language leaves the result to the implementation:
  it is what the platform gives (\<open>int64_beyond\<close> of the environment), a 64 bit integer.
\<close>

definition trunc :: "rat \<Rightarrow> int" where
  "trunc x = (if 0 \<le> x then \<lfloor>x\<rfloor> else \<lceil>x\<rceil>)"

definition int64_of :: "env \<Rightarrow> rat \<Rightarrow> int" where
  "int64_of E x =
     (if - (2 ^ 63) \<le> trunc x \<and> trunc x < 2 ^ 63 then trunc x
      else wrap64 (int64_beyond E x))"

text \<open>
  \<open>GetTokenExpiry\<close>.  The variable \<open>exp\<close> of the source (\<open>e\<close> below) starts at zero and
  is overwritten by a numeric \<open>exp\<close> claim; a claim of another type is an error.  Then zero
  means "does not expire".
\<close>

definition exp_claim :: "token \<Rightarrow> string + rat" where
  "exp_claim tok =
     (case Claims tok ''exp'' of
        None \<Rightarrow> Inr 0
      | Some c \<Rightarrow>
          (case c of
             CNumber x \<Rightarrow> Inr x
           | _ \<Rightarrow> Inl (''expected floating point 'exp' but got '' @ type_name c)))"

definition GetTokenExpiry :: "env \<Rightarrow> token \<Rightarrow> Time \<Rightarrow> string + (bool \<times> Duration)" where
  "GetTokenExpiry E tok now =
     (case exp_claim tok of
        Inl e \<Rightarrow> Inl e
      | Inr e \<Rightarrow>
          if e = 0 then Inr (False, 0)
          else Inr (True, Sub (Unix (int64_of E e)) now))"

text \<open>
  The state a call works on: the wrapper, the token requests submitted so far, and the
  label pairs \<open>(attempt, code)\<close> with which the two metrics were updated.
\<close>

record state =
  wrapper :: TransportWrapper
  grants :: "form list"
  counted :: "(string \<times> string) list"
  timed :: "(string \<times> string) list"

section \<open>The token endpoint client\<close>

definition havePassword :: "TransportWrapper \<Rightarrow> bool" where
  "havePassword w = (user w \<noteq> [] \<and> password w \<noteq> [])"

definition haveSecret :: "TransportWrapper \<Rightarrow> bool" where
  "haveSecret w = (clientID w \<noteq> [] \<and> clientSecret w \<noteq> [])"

definition haveCredentials :: "TransportWrapper \<Rightarrow> bool" where
  "haveCredentials w = (havePassword w \<or> haveSecret w)"

definition currentTokens :: "TransportWrapper \<Rightarrow> string \<times> string" where
  "currentTokens w =
     ((case accessToken w of Some t \<Rightarrow> Raw t | None \<Rightarrow> []),
      (case refreshToken w of Some t \<Rightarrow> Raw t | None \<Rightarrow> []))"

text \<open>The \<open>'%s'\<close> and \<open>'%d'\<close> of the messages: a text between apostrophes.\<close>

definition quoted :: "string \<Rightarrow> string" where
  "quoted x = [CHR 0x27] @ x @ [CHR 0x27]"

text \<open>
  \<open>sendTokenFormTimed\<close>: returns the code, the result and the error, and stores the new
  pair only after every check has passed.  The request is built for the URL that \<open>Build\<close>
  accepted; the case that it cannot be built, in which the source would use a request that
  does not exist, is left out.
\<close>

definition sendTokenFormTimed ::
  "env \<Rightarrow> form \<Rightarrow> state \<Rightarrow> (int \<times> TokenResponse option \<times> string option) \<times> state" where
  "sendTokenFormTimed E frm s =
     (let s1 = s\<lparr>grants := grants s @ [frm]\<rparr>
      in case roundtrip E (grants s1) of
           SelectFailed e \<Rightarrow> ((0, None, Some e), s1)
         | DoFailed e \<Rightarrow> ((0, None, Some (''can't send request: '' @ e)), s1)
         | Responded r \<Rightarrow>
             (let code = StatusCode r
              in case ContentTypeError r of
                   Some e \<Rightarrow> ((code, None, Some e), s1)
                 | None \<Rightarrow>
              (case ReadError r of
                   Some e \<Rightarrow> ((code, None, Some (''can't read response: '' @ e)), s1)
                 | None \<Rightarrow>
              (let result = Decoded r
               in case UnmarshalError r of
                   Some e \<Rightarrow>
                     ((code, Some result, Some (''can't parse JSON response: '' @ e)), s1)
                 | None \<Rightarrow>
              (case Error result of
                   Some er \<Rightarrow>
                     (case ErrorDescription result of
                        Some d \<Rightarrow> ((code, Some result, Some (er @ '': '' @ d)), s1)
                      | None \<Rightarrow> ((code, Some result, Some er), s1))
                 | None \<Rightarrow>
              if code \<noteq> 200 then
                ((code, Some result,
                  Some (''token response status code is '' @ quoted (Itoa code))), s1)
              else if TokenType result \<noteq> None \<and> TokenType result \<noteq> Some ''bearer'' then
                ((code, Some result,
                  Some (''expected 'bearer' token type but got ''
                        @ [CHR 0x27] @ the (TokenType result))), s1)
              else
              (case AccessToken result of
                   None \<Rightarrow> ((code, Some result, Some ''no access token was received''), s1)
                 | Some atext \<Rightarrow>
              (case ParseUnverified E atext of
                   Inl e \<Rightarrow> ((code, Some result, Some e), s1)
                 | Inr accessTok \<Rightarrow>
              (case RefreshToken result of
                   None \<Rightarrow> ((code, Some result, Some ''no refresh token was received''), s1)
                 | Some rtext \<Rightarrow>
              (case ParseUnverified E rtext of
                   Inl e \<Rightarrow> ((code, Some result, Some e), s1)
                 | Inr refreshTok \<Rightarrow>
                     ((code, Some result, None),
                      s1\<lparr>wrapper := (wrapper s1)\<lparr>accessToken := Some accessTok,
                                                 refreshToken := Some refreshTok\<rparr>\<rparr>))))))))))"

text \<open>\<open>sendTokenForm\<close>: the same, with the two metrics updated when they exist.\<close>

definition sendTokenForm ::
  "env \<Rightarrow> form \<Rightarrow> int \<Rightarrow> state \<Rightarrow> (int \<times> TokenResponse option \<times> string option) \<times> state" where
  "sendTokenForm E frm attempt s =
     (case sendTokenFormTimed E frm s of
        ((code, result, err), s1) \<Rightarrow>
          (let labels = (Itoa attempt, Itoa code);
               s2 = (if tokenCountMetric (wrapper s1)
                     then s1\<lparr>counted := counted s1 @ [labels]\<rparr> else s1);
               s3 = (if tokenDurationMetric (wrapper s2)
                     then s2\<lparr>timed := timed s2 @ [labels]\<rparr> else s2)
           in ((code, result, err), s3)))"

text \<open>The three forms; the scopes are joined with spaces.\<close>

definition passwordForm :: "TransportWrapper \<Rightarrow> form" where
  "passwordForm w =
     [''grant_type'' \<mapsto> ''password'', ''client_id'' \<mapsto> clientID w,
      ''username'' \<mapsto> user w, ''password'' \<mapsto> password w,
      ''scope'' \<mapsto> Join (scopes w) '' '']"

definition clientCredentialsForm :: "TransportWrapper \<Rightarrow> form" where
  "clientCredentialsForm w =
     [''grant_type'' \<mapsto> ''client_credentials'', ''client_id'' \<mapsto> clientID w,
      ''client_secret'' \<mapsto> clientSecret w,
      ''scope'' \<mapsto> Join (scopes w) '' '']"

definition refreshTokenForm :: "TransportWrapper \<Rightarrow> token \<Rightarrow> form" where
  "refreshTokenForm w rt =
     [''grant_type'' \<mapsto> ''refresh_token'', ''client_id'' \<mapsto> clientID w,
      ''client_secret'' \<mapsto> clientSecret w, ''refresh_token'' \<mapsto> Raw rt]"

definition sendRequestTokenForm ::
  "env \<Rightarrow> int \<Rightarrow> state \<Rightarrow> (int \<times> TokenResponse option \<times> string option) \<times> state" where
  "sendRequestTokenForm E attempt s =
     (let w = wrapper s
      in if havePassword w then sendTokenForm E (passwordForm w) attempt s
         else if haveSecret w then sendTokenForm E (clientCredentialsForm w) attempt s
         else ((0, None, Some ''either password or client secret must be provided''), s))"

text \<open>
  \<open>sendRefreshTokenForm\<close>.  The source reads the text of the stored refresh token; its
  caller has checked that there is one, and passes it here as \<open>rt\<close>.
\<close>

definition sendRefreshTokenForm ::
  "env \<Rightarrow> int \<Rightarrow> token \<Rightarrow> state \<Rightarrow> (int \<times> TokenResponse option \<times> string option) \<times> state" where
  "sendRefreshTokenForm E attempt rt s =
     (let w = wrapper s
      in case sendTokenForm E (refreshTokenForm w rt) attempt s of
           ((code, result, err), s1) \<Rightarrow>
             (case (err, result) of
                (Some e, Some res) \<Rightarrow>
                  (let errorCode = (case Error res of Some c \<Rightarrow> c | None \<Rightarrow> [])
                   in if errorCode = ''invalid_grant'' \<and> haveCredentials (wrapper s1)
                      then sendRequestTokenForm E attempt s1
                      else ((code, result, err), s1))
              | _ \<Rightarrow> ((code, result, err), s1)))"

section \<open>The token lifecycle\<close>

definition tokenExpiry :: Duration where
  "tokenExpiry = 1 * Minute"

text \<open>
  The expiry of a stored token; for an absent one the variables keep their zero values.
\<close>

definition expiry_of :: "env \<Rightarrow> token option \<Rightarrow> Time \<Rightarrow> string + (bool \<times> Duration)" where
  "expiry_of E t now =
     (case t of
        None \<Rightarrow> Inr (False, 0)
      | Some tok \<Rightarrow> GetTokenExpiry E tok now)"

text \<open>
  What \<open>tokens\<close> does after a grant: an error leaves \<open>access\<close> and \<open>refresh\<close> empty,
  otherwise the current tokens are returned.
\<close>

definition after_grant ::
  "(int \<times> TokenResponse option \<times> string option) \<times> state \<Rightarrow>
   (int \<times> string \<times> string \<times> string option) \<times> state" where
  "after_grant g =
     (case g of
        ((code, result, err), s1) \<Rightarrow>
          (case err of
             Some e \<Rightarrow> ((code, [], [], Some e), s1)
           | None \<Rightarrow>
               ((code, fst (currentTokens (wrapper s1)), snd (currentTokens (wrapper s1)), None),
                s1)))"

text \<open>
  \<open>tokens\<close>: one pass of the decision procedure.  It returns the code, the access and
  refresh token texts and the error.  Where a refresh grant is sent the refresh token is
  known to be present.
\<close>

definition tokens ::
  "env \<Rightarrow> int \<Rightarrow> Duration \<Rightarrow> state \<Rightarrow> (int \<times> string \<times> string \<times> string option) \<times> state" where
  "tokens E attempt expiresIn s =
     (let w = wrapper s; now = Now E attempt
      in case expiry_of E (accessToken w) now of
           Inl e \<Rightarrow> ((0, [], [], Some e), s)
         | Inr (accessExpires, accessLeft) \<Rightarrow>
      (case expiry_of E (refreshToken w) now of
           Inl e \<Rightarrow> ((0, [], [], Some e), s)
         | Inr (refreshExpires, refreshLeft) \<Rightarrow>
      if accessToken w \<noteq> None \<and> (\<not> accessExpires \<or> expiresIn \<le> accessLeft) then
        ((0, fst (currentTokens w), snd (currentTokens w), None), s)
      else if refreshToken w \<noteq> None \<and> (\<not> refreshExpires \<or> expiresIn \<le> refreshLeft) then
        after_grant (sendRefreshTokenForm E attempt (the (refreshToken w)) s)
      else if haveCredentials w then
        after_grant (sendRequestTokenForm E attempt s)
      else if refreshToken w \<noteq> None \<and> 0 < refreshLeft then
        after_grant (sendRefreshTokenForm E attempt (the (refreshToken w)) s)
      else if accessToken w \<noteq> None \<and> 0 < accessLeft then
        ((0, fst (currentTokens w), snd (currentTokens w), None), s)
      else
        ((0, [], [],
          Some (''access and refresh tokens are unavailable or expired, and there are no ''
                @ ''password or client secret to request new ones'')), s)))"

text \<open>
  The closure \<open>operation\<close> of \<open>Tokens\<close>.  It works on the variables it captures (the
  attempt counter and the three results of \<open>Tokens\<close>) and on the state, and hands the
  back-off loop nothing, the error, or the error marked permanent.
\<close>

datatype op_error = Retryable string | Permanent string

type_synonym captured = "int \<times> string \<times> string \<times> string option"

definition operation ::
  "env \<Rightarrow> Duration \<Rightarrow> captured \<times> state \<Rightarrow> op_error option \<times> captured \<times> state" where
  "operation E expiresDuration cs =
     (case cs of
        ((attempt, access, refresh, err), s) \<Rightarrow>
          (case tokens E (attempt + 1) expiresDuration s of
             ((code, a, r, e), s1) \<Rightarrow>
               (case e of
                  Some m \<Rightarrow>
                    if 500 \<le> code then (Some (Retryable m), (attempt + 1, a, r, e), s1)
                    else (Some (Permanent m), (attempt + 1, a, r, e), s1)
                | None \<Rightarrow> (None, (attempt + 1, a, r, e), s1))))"

text \<open>
  Modelled from the spec: the retry loop of the back-off library, which is not among the
  sources.  The operation runs at least once; it runs again after an error that is not
  marked permanent, as long as the policy grants another attempt (\<open>n\<close> more).  \<open>Tokens\<close>
  discards what the loop returns, so the model returns the final variables only.
\<close>

fun Retry :: "('st \<Rightarrow> op_error option \<times> 'st) \<Rightarrow> nat \<Rightarrow> 'st \<Rightarrow> 'st" where
  "Retry opn 0 st = snd (opn st)"
| "Retry opn (Suc n) st =
     (case opn st of
        (None, st1) \<Rightarrow> st1
      | (Some (Permanent e), st1) \<Rightarrow> st1
      | (Some (Retryable e), st1) \<Rightarrow> Retry opn n st1)"

text \<open>
  \<open>Tokens\<close>: the optional argument replaces the default freshness window when exactly
  one value is given.
\<close>

definition expiresDuration :: "Duration list \<Rightarrow> Duration" where
  "expiresDuration expiresIn = (case expiresIn of [d] \<Rightarrow> d | _ \<Rightarrow> tokenExpiry)"

definition Tokens ::
  "env \<Rightarrow> Duration list \<Rightarrow> state \<Rightarrow> (string \<times> string \<times> string option) \<times> state" where
  "Tokens E expiresIn s =
     (case Retry (operation E (expiresDuration expiresIn)) (retries E)
             ((0, [], [], None), s) of
        ((attempt, access, refresh, err), s1) \<Rightarrow> ((access, refresh, err), s1))"

section \<open>Building the wrapper\<close>

definition DefaultTokenURL :: string where
  "DefaultTokenURL =
     ''https://sso.redhat.com/auth/realms/redhat-external/protocol/openid-connect/token''"

definition DefaultClientID :: string where
  "DefaultClientID = ''cloud-services''"

definition DefaultClientSecret :: string where
  "DefaultClientSecret = []"

definition DefaultScopes :: "string list" where
  "DefaultScopes = [''openid'']"

text \<open>
  What a registerer answers: the metric is registered, one of that name is registered
  already (and is, or is not, a vector of the expected kind), or an error.
\<close>

datatype register_result = Registered | AlreadyRegistered bool | RegisterFailed string

text \<open>A step of \<open>Build\<close> panics, returns an error, or goes on with a value.\<close>

datatype 'a outcome = Panic | Failed string | Done 'a

record TransportWrapperBuilder =
  b_logger :: bool
  b_tokenURL :: string
  b_clientID :: string
  b_clientSecret :: string
  b_user :: string
  b_password :: string
  b_tokens :: "string list"
  b_scopes :: "string list"
  b_agent :: string
  b_trustedCAs :: "ca_source list"
  b_insecure :: bool
  b_metricsSubsystem :: string
  b_metricsRegisterer :: "(string \<Rightarrow> register_result) option"

text \<open>
  The loop over the given tokens, from index \<open>i\<close> on.  A later token of a kind replaces
  an earlier one.
\<close>

fun parseTokens ::
  "env \<Rightarrow> int \<Rightarrow> string list \<Rightarrow> token option \<times> token option \<Rightarrow>
   string + (token option \<times> token option)" where
  "parseTokens E i [] acc = Inr acc"
| "parseTokens E i (text # rest) acc =
     (case ParseUnverified E text of
        Inl e \<Rightarrow> Inl (''can't parse token '' @ Itoa i @ '': '' @ e)
      | Inr tok \<Rightarrow>
          (case Claims tok ''typ'' of
             None \<Rightarrow> Inl (''token '' @ Itoa i @ '' doesn't contain the 'typ' claim'')
           | Some c \<Rightarrow>
               (case c of
                  CString typ \<Rightarrow>
                    if EqualFold typ ''Bearer'' then
                      parseTokens E (i + 1) rest (Some tok, snd acc)
                    else if EqualFold typ ''Refresh'' then
                      parseTokens E (i + 1) rest (fst acc, Some tok)
                    else if EqualFold typ ''Offline'' then
                      parseTokens E (i + 1) rest (fst acc, Some tok)
                    else
                      Inl (''type '' @ quoted typ @ '' of token '' @ Itoa i @ '' is unknown'')
                | _ \<Rightarrow>
                    Inl (''claim 'type' of token '' @ Itoa i @ '' is of type ''
                         @ quoted (type_name c)))))"

text \<open>
  Registering one metric.  Without a registerer the call panics; so does the unchecked
  conversion of an existing collector of another kind.
\<close>

definition registerMetric ::
  "(string \<Rightarrow> register_result) option \<Rightarrow> string \<Rightarrow> unit outcome" where
  "registerMetric registerer name =
     (case registerer of
        None \<Rightarrow> Panic
      | Some reg \<Rightarrow>
          (case reg name of
             Registered \<Rightarrow> Done ()
           | AlreadyRegistered same_kind \<Rightarrow> if same_kind then Done () else Panic
           | RegisterFailed e \<Rightarrow> Failed e))"

definition registerMetrics :: "TransportWrapperBuilder \<Rightarrow> (bool \<times> bool) outcome" where
  "registerMetrics b =
     (if b_metricsSubsystem b \<noteq> [] then
        (case registerMetric (b_metricsRegisterer b)
                (b_metricsSubsystem b @ ''_token_request_count'') of
           Panic \<Rightarrow> Panic
         | Failed e \<Rightarrow> Failed e
         | Done _ \<Rightarrow>
             (case registerMetric (b_metricsRegisterer b)
                     (b_metricsSubsystem b @ ''_token_request_duration'') of
                Panic \<Rightarrow> Panic
              | Failed e \<Rightarrow> Failed e
              | Done _ \<Rightarrow> Done (True, True)))
      else Done (False, False))"

definition Build :: "env \<Rightarrow> TransportWrapperBuilder \<Rightarrow> TransportWrapper outcome" where
  "Build E b =
     (if \<not> b_logger b then Failed ''logger is mandatory''
      else
        let haveTokens = (b_tokens b \<noteq> []);
            havePassword = (b_user b \<noteq> [] \<and> b_password b \<noteq> []);
            haveSecret = (b_clientID b \<noteq> [] \<and> b_clientSecret b \<noteq> [])
        in if \<not> haveTokens \<and> \<not> havePassword \<and> \<not> haveSecret then
             Failed (''either a token, an user name and password or a client identifier and ''
                     @ ''secret are necessary, but none has been provided'')
           else
             (case parseTokens E 0 (b_tokens b) (None, None) of
                Inl e \<Rightarrow> Failed e
              | Inr (accessTok, refreshTok) \<Rightarrow>
                  (let url = (if b_tokenURL b = [] then DefaultTokenURL else b_tokenURL b)
                   in case ParseServerAddress E url of
                        Some e \<Rightarrow> Failed (''can't parse token URL '' @ quoted url @ '': '' @ e)
                      | None \<Rightarrow>
                  (let cid = (if b_clientID b = [] then DefaultClientID else b_clientID b);
                       secret = (if b_clientSecret b = [] then DefaultClientSecret
                                 else b_clientSecret b);
                       scps = (if b_scopes b = [] then DefaultScopes else b_scopes b)
                   in case NewClientSelector E (b_trustedCAs b) (b_insecure b) of
                        Some e \<Rightarrow> Failed e
                      | None \<Rightarrow>
                  (case registerMetrics b of
                        Panic \<Rightarrow> Panic
                      | Failed e \<Rightarrow> Failed e
                      | Done (countMetric, durationMetric) \<Rightarrow>
                          Done \<lparr>clientID = cid, clientSecret = secret, user = b_user b,
                                password = b_password b, scopes = scps, agent = b_agent b,
                                tokenURL = url, accessToken = accessTok,
                                refreshToken = refreshTok,
                                metricsSubsystem = b_metricsSubsystem b,
                                tokenCountMetric = countMetric,
                                tokenDurationMetric = durationMetric\<rparr>)))))"

section \<open>Notions used in the statements\<close>

text \<open>The code that a token request reports for a reply: zero without a response.\<close>

definition code_of :: "reply \<Rightarrow> int" where
  "code_of rp = (case rp of Responded r \<Rightarrow> StatusCode r | _ \<Rightarrow> 0)"

text \<open>
  A grant succeeds end to end: a response arrived, it is JSON, it was read and decoded,
  it has no \<open>error\<close> field, its status is 200, its token type is absent or \<open>bearer\<close>, and
  both tokens are present and can be decoded.
\<close>

definition grant_succeeds :: "env \<Rightarrow> reply \<Rightarrow> bool" where
  "grant_succeeds E rp =
     (case rp of
        Responded r \<Rightarrow>
          ContentTypeError r = None \<and> ReadError r = None \<and> UnmarshalError r = None \<and>
          Error (Decoded r) = None \<and> StatusCode r = 200 \<and>
          (TokenType (Decoded r) = None \<or> TokenType (Decoded r) = Some ''bearer'') \<and>
          (case AccessToken (Decoded r) of
             Some a \<Rightarrow> (case ParseUnverified E a of Inr _ \<Rightarrow> True | Inl _ \<Rightarrow> False)
           | None \<Rightarrow> False) \<and>
          (case RefreshToken (Decoded r) of
             Some a \<Rightarrow> (case ParseUnverified E a of Inr _ \<Rightarrow> True | Inl _ \<Rightarrow> False)
           | None \<Rightarrow> False)
      | _ \<Rightarrow> False)"

text \<open>
  A stored token is usable under a window when it is present, its expiry can be computed,
  and it does not expire or has at least the window left.  It has some lifetime left when
  it is present with a positive rest.
\<close>

definition usable :: "env \<Rightarrow> token option \<Rightarrow> Time \<Rightarrow> Duration \<Rightarrow> bool" where
  "usable E tk now d =
     (case tk of
        None \<Rightarrow> False
      | Some t \<Rightarrow>
          (case GetTokenExpiry E t now of
             Inr (expires, left) \<Rightarrow> \<not> expires \<or> d \<le> left
           | Inl _ \<Rightarrow> False))"

definition lifetime_left :: "env \<Rightarrow> token option \<Rightarrow> Time \<Rightarrow> bool" where
  "lifetime_left E tk now =
     (case tk of
        None \<Rightarrow> False
      | Some t \<Rightarrow>
          (case GetTokenExpiry E t now of
             Inr (expires, left) \<Rightarrow> 0 < left
           | Inl _ \<Rightarrow> False))"

text \<open>The \<open>exp\<close> claim of a token, if there is one, is a number.\<close>

definition numeric_exp :: "token \<Rightarrow> bool" where
  "numeric_exp tok =
     (case Claims tok ''exp'' of
        None \<Rightarrow> True
      | Some c \<Rightarrow> (case c of CNumber x \<Rightarrow> True | _ \<Rightarrow> False))"

text \<open>The form of the password or client credentials grant, the password first.\<close>

definition requestForm :: "TransportWrapper \<Rightarrow> form" where
  "requestForm w = (if havePassword w then passwordForm w else clientCredentialsForm w)"

text \<open>The grant types of the token requests submitted so far.\<close>

definition grant_types :: "state \<Rightarrow> string option list" where
  "grant_types s = map (\<lambda>f. f ''grant_type'') (grants s)"

text \<open>
  The kind of a given token text: its \<open>typ\<close> claim when the text can be parsed and the
  claim is a string.  It is of the access kind when the claim is \<open>Bearer\<close>, of the refresh
  kind when it is \<open>Refresh\<close> or \<open>Offline\<close>, the case of the letters disregarded, and it is
  rejected otherwise.  Of the given tokens, the last one of a kind is kept.
\<close>

definition typ_of :: "env \<Rightarrow> string \<Rightarrow> string option" where
  "typ_of E text =
     (case ParseUnverified E text of
        Inl _ \<Rightarrow> None
      | Inr tok \<Rightarrow>
          (case Claims tok ''typ'' of
             None \<Rightarrow> None
           | Some c \<Rightarrow> (case c of CString typ \<Rightarrow> Some typ | _ \<Rightarrow> None)))"

definition is_access :: "env \<Rightarrow> string \<Rightarrow> bool" where
  "is_access E text =
     (case typ_of E text of Some typ \<Rightarrow> EqualFold typ ''Bearer'' | None \<Rightarrow> False)"

definition is_refresh :: "env \<Rightarrow> string \<Rightarrow> bool" where
  "is_refresh E text =
     (case typ_of E text of
        Some typ \<Rightarrow> EqualFold typ ''Refresh'' \<or> EqualFold typ ''Offline''
      | None \<Rightarrow> False)"

definition token_rejected :: "env \<Rightarrow> string \<Rightarrow> bool" where
  "token_rejected E text = (\<not> is_access E text \<and> \<not> is_refresh E text)"

definition parsed :: "env \<Rightarrow> string \<Rightarrow> token option" where
  "parsed E text = (case ParseUnverified E text of Inr tok \<Rightarrow> Some tok | Inl _ \<Rightarrow> None)"

definition kept :: "env \<Rightarrow> (env \<Rightarrow> string \<Rightarrow> bool) \<Rightarrow> string list \<Rightarrow> token option" where
  "kept E kind texts =
     (case filter (kind E) texts of [] \<Rightarrow> None | t # ts \<Rightarrow> parsed E (last (t # ts)))"


section \<open>Example inputs\<close>

definition token_exp_zero :: token where
  "token_exp_zero = \<lparr>Raw = ''stamped'', Claims = [''exp'' \<mapsto> CNumber 0]\<rparr>"

definition token_exp_soon :: token where
  "token_exp_soon = \<lparr>Raw = ''soon'', Claims = [''exp'' \<mapsto> CNumber 1700000060]\<rparr>"

text \<open>A decoder that knows a handful of token texts.\<close>

definition decode0 :: "string \<Rightarrow> string + (string \<rightharpoonup> claim)" where
  "decode0 text =
     (if text = ''A1'' then Inr [''typ'' \<mapsto> CString ''Bearer'']
      else if text = ''A2'' then
        Inr [''typ'' \<mapsto> CString ''Bearer'', ''exp'' \<mapsto> CNumber 1700000900]
      else if text = ''R1'' then Inr [''typ'' \<mapsto> CString ''Refresh'']
      else if text = ''O1'' then Inr [''typ'' \<mapsto> CString ''Offline'']
      else if text = ''R2'' then
        Inr [''typ'' \<mapsto> CString ''Refresh'', ''exp'' \<mapsto> CString ''tomorrow'']
      else Inl ''token contains an invalid number of segments'')"

definition example_env :: "(form list \<Rightarrow> reply) \<Rightarrow> nat \<Rightarrow> env" where
  "example_env rt n =
     \<lparr>decode = decode0, roundtrip = rt, Now = (\<lambda>k. 1700000000 * Second), retries = n,
      ParseServerAddress = (\<lambda>url. None),
      NewClientSelector =
        (\<lambda>cas insecure. if OtherValue \<in> set cas
                         then Some ''don't know how to load trusted CA'' else None),
      int64_beyond = (\<lambda>x. - (2 ^ 63))\<rparr>"

definition example_wrapper :: "string \<Rightarrow> token option \<Rightarrow> token option \<Rightarrow> TransportWrapper" where
  "example_wrapper secret a r =
     \<lparr>clientID = ''cloud-services'', clientSecret = secret, user = [], password = [],
      scopes = [''openid''], agent = [], tokenURL = DefaultTokenURL,
      accessToken = a, refreshToken = r, metricsSubsystem = [],
      tokenCountMetric = False, tokenDurationMetric = False\<rparr>"

definition example_state :: "TransportWrapper \<Rightarrow> state" where
  "example_state w = \<lparr>wrapper = w, grants = [], counted = [], timed = []\<rparr>"

definition no_fields :: TokenResponse where
  "no_fields =
     \<lparr>Error = None, ErrorDescription = None, TokenType = None, AccessToken = None,
      RefreshToken = None\<rparr>"

definition json_response :: "int \<Rightarrow> TokenResponse \<Rightarrow> response" where
  "json_response code body =
     \<lparr>StatusCode = code, ContentTypeError = None, ReadError = None, UnmarshalError = None,
      Decoded = body\<rparr>"

definition ok_response :: response where
  "ok_response =
     json_response 200
       (no_fields\<lparr>TokenType := Some ''bearer'', AccessToken := Some ''A2'',
                  RefreshToken := Some ''R1''\<rparr>)"

definition invalid_grant_response :: response where
  "invalid_grant_response =
     json_response 400
       (no_fields\<lparr>Error := Some ''invalid_grant'',
                  ErrorDescription := Some ''Session not active''\<rparr>)"

definition unavailable_response :: response where
  "unavailable_response = json_response 503 no_fields"

definition endpoint_down :: "form list \<Rightarrow> reply" where
  "endpoint_down fs = DoFailed ''connection refused''"

definition always :: "response \<Rightarrow> form list \<Rightarrow> reply" where
  "always r fs = Responded r"

definition half_decodable :: response where
  "half_decodable =
     json_response 200
       (no_fields\<lparr>AccessToken := Some ''A2'', RefreshToken := Some ''garbage''\<rparr>)"

definition secret_wrapper :: TransportWrapper where
  "secret_wrapper = example_wrapper ''s3cret'' None None"

definition bearer_no_exp :: token where
  "bearer_no_exp = \<lparr>Raw = ''A1'', Claims = [''typ'' \<mapsto> CString ''Bearer'']\<rparr>"

definition refresh_no_exp :: token where
  "refresh_no_exp = \<lparr>Raw = ''R1'', Claims = [''typ'' \<mapsto> CString ''Refresh'']\<rparr>"

definition refresh_bad_exp :: token where
  "refresh_bad_exp =
     \<lparr>Raw = ''R2'',
      Claims = [''typ'' \<mapsto> CString ''Refresh'', ''exp'' \<mapsto> CString ''tomorrow'']\<rparr>"

text \<open>
  An endpoint that rejects every refresh grant with \<open>invalid_grant\<close>, is unavailable for
  the other grants among the first three requests, and answers well from the fourth on.
\<close>

definition session_lost :: "form list \<Rightarrow> reply" where
  "session_lost fs =
     (if last fs ''grant_type'' = Some ''refresh_token'' then Responded invalid_grant_response
      else if length fs < 4 then Responded unavailable_response
      else Responded ok_response)"

definition bearer_expiring :: token where
  "bearer_expiring =
     \<lparr>Raw = ''A3'',
      Claims = [''typ'' \<mapsto> CString ''Bearer'', ''exp'' \<mapsto> CNumber 1700000030]\<rparr>"

definition session_wrapper :: TransportWrapper where
  "session_wrapper = example_wrapper ''s3cret'' None (Some refresh_no_exp)"


definition two_refresh_tokens :: TransportWrapperBuilder where
  "two_refresh_tokens =
     \<lparr>b_logger = True, b_tokenURL = [], b_clientID = [], b_clientSecret = [],
      b_user = [], b_password = [], b_tokens = [''O1'', ''R1''], b_scopes = [], b_agent = [],
      b_trustedCAs = [], b_insecure = False, b_metricsSubsystem = [],
      b_metricsRegisterer = None\<rparr>"

definition offline_token :: token where
  "offline_token = \<lparr>Raw = ''O1'', Claims = [''typ'' \<mapsto> CString ''Offline'']\<rparr>"

definition bearer_and_offline :: TransportWrapperBuilder where
  "bearer_and_offline = two_refresh_tokens\<lparr>b_tokens := [''A1'', ''O1'']\<rparr>"

section \<open>Auxiliary facts\<close>

lemma sendTokenFormTimed_code:
  "sendTokenFormTimed E frm s = ((code, result, err), s') \<Longrightarrow>
   code = code_of (roundtrip E (grants s @ [frm])) \<and> grants s' = grants s @ [frm]"
  unfolding sendTokenFormTimed_def Let_def code_of_def
  by (auto split: reply.splits option.splits sum.splits if_splits)

lemma sendTokenFormTimed_failure:
  "sendTokenFormTimed E frm s = ((code, result, Some e), s') \<Longrightarrow>
   s' = s\<lparr>grants := grants s @ [frm]\<rparr>"
  unfolding sendTokenFormTimed_def Let_def
  by (auto split: reply.splits option.splits sum.splits if_splits)

lemma sendTokenFormTimed_success:
  "sendTokenFormTimed E frm s = ((code, result, None), s') \<Longrightarrow>
   \<exists>r a b ta tb. roundtrip E (grants s @ [frm]) = Responded r \<and>
      AccessToken (Decoded r) = Some a \<and> ParseUnverified E a = Inr ta \<and>
      RefreshToken (Decoded r) = Some b \<and> ParseUnverified E b = Inr tb \<and>
      code = 200 \<and> result = Some (Decoded r) \<and>
      s' = s\<lparr>grants := grants s @ [frm],
              wrapper := (wrapper s)\<lparr>accessToken := Some ta, refreshToken := Some tb\<rparr>\<rparr>"
  unfolding sendTokenFormTimed_def Let_def
  by (auto split: reply.splits option.splits sum.splits if_splits)

lemma sendTokenFormTimed_succeeds_iff:
  "sendTokenFormTimed E frm s = ((code, result, err), s') \<Longrightarrow>
   (err = None \<longleftrightarrow> grant_succeeds E (roundtrip E (grants s @ [frm])))"
  unfolding sendTokenFormTimed_def grant_succeeds_def Let_def
  by (fastforce split: reply.splits option.splits sum.splits if_splits)

lemma sendTokenForm_Timed:
  "sendTokenForm E frm n s = ((code, result, err), s') \<Longrightarrow>
   \<exists>s1. sendTokenFormTimed E frm s = ((code, result, err), s1) \<and>
        wrapper s' = wrapper s1 \<and> grants s' = grants s1"
  unfolding sendTokenForm_def Let_def
  by (auto split: prod.splits if_splits)

lemma sendTokenForm_code:
  assumes "sendTokenForm E frm n s = ((code, result, err), s')"
  shows "code = code_of (roundtrip E (grants s')) \<and> grants s' = grants s @ [frm]"
  using sendTokenForm_Timed [OF assms] sendTokenFormTimed_code by fastforce

lemma sendTokenForm_failure:
  assumes "sendTokenForm E frm n s = ((code, result, Some e), s')"
  shows "wrapper s' = wrapper s"
  using sendTokenForm_Timed [OF assms] sendTokenFormTimed_failure by fastforce

lemma sendRequestTokenForm_code:
  assumes "sendRequestTokenForm E n s = ((code, result, err), s')"
    and "haveCredentials (wrapper s)"
  shows "code = code_of (roundtrip E (grants s')) \<and>
         grants s' = grants s @ [if havePassword (wrapper s) then passwordForm (wrapper s)
                                 else clientCredentialsForm (wrapper s)]"
  using assms
  unfolding sendRequestTokenForm_def Let_def haveCredentials_def
  by (auto split: if_splits dest!: sendTokenForm_code)

lemma sendRefreshTokenForm_code:
  assumes "sendRefreshTokenForm E n rt s = ((code, result, err), s')"
  shows "code = code_of (roundtrip E (grants s')) \<and>
         (\<exists>ext. grants s' = grants s @ refreshTokenForm (wrapper s) rt # ext)"
proof -
  obtain c1 r1 e1 s1
    where g: "sendTokenForm E (refreshTokenForm (wrapper s) rt) n s = ((c1, r1, e1), s1)"
    by (metis prod_cases3 surj_pair)
  note g1 = sendTokenForm_code [OF g]
  show ?thesis
  proof (cases "\<exists>e res. e1 = Some e \<and> r1 = Some res \<and>
                  (case Error res of Some c \<Rightarrow> c | None \<Rightarrow> []) = ''invalid_grant'' \<and>
                  haveCredentials (wrapper s1)")
    case True
    then have "sendRequestTokenForm E n s1 = ((code, result, err), s')"
      using assms g unfolding sendRefreshTokenForm_def Let_def by auto
    from sendRequestTokenForm_code [OF this] True g1 show ?thesis by auto
  next
    case False
    then have "((c1, r1, e1), s1) = ((code, result, err), s')"
      using assms g unfolding sendRefreshTokenForm_def Let_def
      by (auto split: option.splits if_splits)
    with g1 show ?thesis by auto
  qed
qed

lemma after_grant_eq:
  "after_grant g = ((code, a, r, err), s') \<Longrightarrow> \<exists>res. g = ((code, res, err), s')"
  unfolding after_grant_def by (auto split: prod.splits option.splits)

lemma tokens_cases:
  assumes "tokens E n d s = X"
  shows "(\<exists>e. X = ((0, [], [], Some e), s)) \<or>
         X = ((0, fst (currentTokens (wrapper s)), snd (currentTokens (wrapper s)), None), s) \<or>
         (\<exists>rt. refreshToken (wrapper s) = Some rt \<and>
               X = after_grant (sendRefreshTokenForm E n rt s)) \<or>
         (haveCredentials (wrapper s) \<and> X = after_grant (sendRequestTokenForm E n s))"
  using assms unfolding tokens_def Let_def
  by (auto split: sum.splits prod.splits if_splits)

lemma tokens_code:
  assumes "tokens E n d s = ((code, a, r, err), s')"
  shows "(s' = s \<and> code = 0) \<or>
         ((\<exists>f ext. grants s' = grants s @ f # ext) \<and> code = code_of (roundtrip E (grants s')))"
  using tokens_cases [OF assms]
  by (auto dest!: after_grant_eq [OF sym] sendRefreshTokenForm_code sendRequestTokenForm_code)

section \<open>The expiry of a token\<close>

text \<open>
  Claim C10.  \<open>GetTokenExpiry\<close> reports that the token does not expire, with nothing
  remaining, when the \<open>exp\<close> claim is absent and also when it is present with the value 0.
\<close>

theorem exp_zero_never_expires:
  "Claims tok ''exp'' = None \<or> Claims tok ''exp'' = Some (CNumber 0) \<Longrightarrow>
   GetTokenExpiry E tok now = Inr (False, 0)"
  by (auto simp: GetTokenExpiry_def exp_claim_def)

theorem exp_zero_never_expires_witness:
  "Claims token_exp_zero ''exp'' = Some (CNumber 0) \<and>
   GetTokenExpiry (example_env endpoint_down 3) token_exp_zero (1700000000 * Second) =
     Inr (False, 0)"
  using exp_zero_never_expires
    [of token_exp_zero "example_env endpoint_down 3" "1700000000 * Second"]
  by (simp add: token_exp_zero_def)

text \<open>
  Claim C3, as stated, fails for a token stamped \<open>exp = 0\<close>: it carries the claim, yet it
  is reported as not expiring, with nothing remaining instead of \<open>exp - t\<close>.
\<close>

theorem expiry_of_exp_zero_counterexample:
  "Claims token_exp_zero ''exp'' = Some (CNumber 0) \<and>
   GetTokenExpiry (example_env endpoint_down 3) token_exp_zero (1700000000 * Second) =
     Inr (False, 0) \<and>
   GetTokenExpiry (example_env endpoint_down 3) token_exp_zero (1700000000 * Second) \<noteq>
     Inr (True, 0 * Second - 1700000000 * Second)"
  by (simp add: token_exp_zero_def GetTokenExpiry_def exp_claim_def)

lemma Sub_range: "minDuration \<le> Sub t u \<and> Sub t u \<le> maxDuration"
  by (simp add: Sub_def Let_def minDuration_def maxDuration_def)

lemma Unix_plain:
  "- (2 ^ 63) \<le> n \<Longrightarrow> n + unixToInternal < 2 ^ 63 \<Longrightarrow> Unix n = n * Second"
  by (simp add: Unix_def wrap64_def unixToInternal_def)

lemma mod_once:
  fixes a m :: int
  assumes "m \<le> a" and "a < 2 * m"
  shows "a mod m = a - m"
proof -
  have "a mod m = (a - m + m) mod m" by simp
  also have "\<dots> = (a - m) mod m" by (rule mod_add_self2)
  also have "\<dots> = a - m" using assms by (intro mod_pos_pos_trivial) auto
  finally show ?thesis .
qed

lemma wrap64_high:
  assumes "2 ^ 63 \<le> i" and "i < 2 ^ 63 + 2 ^ 64"
  shows "wrap64 i = i - 2 ^ 64"
proof -
  have "(i + 2 ^ 63) mod 2 ^ 64 = i + 2 ^ 63 - 2 ^ 64"
    using assms by (intro mod_once) auto
  then show ?thesis
    unfolding wrap64_def by simp
qed

lemma Unix_wrapped:
  "2 ^ 63 \<le> n + unixToInternal \<Longrightarrow> n < 2 ^ 63 \<Longrightarrow> Unix n = (n - 2 ^ 64) * Second"
proof -
  assume a: "2 ^ 63 \<le> n + unixToInternal" and b: "n < 2 ^ 63"
  have "n + unixToInternal < 2 ^ 63 + 2 ^ 64"
    using b by (simp add: unixToInternal_def)
  from wrap64_high [OF a this] show ?thesis
    by (simp add: Unix_def)
qed

text \<open>
  An \<open>exp\<close> close to the largest 64 bit integer: the instant wraps around, and the token
  counts as expired long ago.
\<close>

lemma GetTokenExpiry_wraps:
  "Claims tok ''exp'' = Some (CNumber (2 ^ 63 - 1024)) \<Longrightarrow>
   GetTokenExpiry E tok (1700000000 * Second) = Inr (True, minDuration)"
  by (simp add: GetTokenExpiry_def exp_claim_def Sub_def Unix_def int64_of_def trunc_def
      wrap64_def unixToInternal_def Second_def maxDuration_def minDuration_def)

text \<open>
  Claim C3, amended.  Without an \<open>exp\<close> claim the token does not expire and nothing
  remains.  With a numeric \<open>exp\<close> claim other than 0 the token expires, and what remains is
  a duration.  When \<open>exp\<close>, cut to whole seconds, fits 64 bits also after the seconds from
  the year 1 to the epoch are added, what remains is \<open>exp - t\<close> in whole seconds of \<open>exp\<close>,
  kept within the range of a duration; for an \<open>exp\<close> in whole seconds whose distance from
  \<open>t\<close> is in that range it is exactly \<open>exp - t\<close>.  When \<open>exp\<close> fits 64 bits but that sum
  does not, the instant wraps around by \<open>2 ^ 64\<close> seconds into the past.
\<close>

theorem GetTokenExpiry_remaining:
  "(Claims tok ''exp'' = None \<longrightarrow> GetTokenExpiry E tok t = Inr (False, 0)) \<and>
   (\<forall>x. Claims tok ''exp'' = Some (CNumber x) \<and> x \<noteq> 0 \<longrightarrow>
        (\<exists>left. GetTokenExpiry E tok t = Inr (True, left) \<and>
           minDuration \<le> left \<and> left \<le> maxDuration)) \<and>
   (\<forall>x. Claims tok ''exp'' = Some (CNumber x) \<and> x \<noteq> 0 \<and>
        - (2 ^ 63) \<le> trunc x \<and> trunc x + unixToInternal < 2 ^ 63 \<longrightarrow>
        GetTokenExpiry E tok t =
          Inr (True, max minDuration (min maxDuration (trunc x * Second - t)))) \<and>
   (\<forall>x. Claims tok ''exp'' = Some (CNumber x) \<and> x \<noteq> 0 \<and>
        2 ^ 63 \<le> trunc x + unixToInternal \<and> trunc x < 2 ^ 63 \<longrightarrow>
        GetTokenExpiry E tok t =
          Inr (True, max minDuration (min maxDuration ((trunc x - 2 ^ 64) * Second - t)))) \<and>
   (\<forall>n. Claims tok ''exp'' = Some (CNumber (of_int n)) \<and> n \<noteq> 0 \<and>
        - (2 ^ 63) \<le> n \<and> n + unixToInternal < 2 ^ 63 \<and>
        minDuration \<le> n * Second - t \<and> n * Second - t \<le> maxDuration \<longrightarrow>
        GetTokenExpiry E tok t = Inr (True, n * Second - t))"
proof (intro conjI allI impI)
  assume "Claims tok ''exp'' = None"
  then show "GetTokenExpiry E tok t = Inr (False, 0)"
    by (simp add: GetTokenExpiry_def exp_claim_def)
next
  fix x assume "Claims tok ''exp'' = Some (CNumber x) \<and> x \<noteq> 0"
  then have "GetTokenExpiry E tok t = Inr (True, Sub (Unix (int64_of E x)) t)"
    by (simp add: GetTokenExpiry_def exp_claim_def)
  with Sub_range [of "Unix (int64_of E x)" t]
  show "\<exists>left. GetTokenExpiry E tok t = Inr (True, left) \<and>
           minDuration \<le> left \<and> left \<le> maxDuration"
    by simp
next
  fix x assume a: "Claims tok ''exp'' = Some (CNumber x) \<and> x \<noteq> 0 \<and>
        - (2 ^ 63) \<le> trunc x \<and> trunc x + unixToInternal < 2 ^ 63"
  then have i: "int64_of E x = trunc x"
    by (simp add: int64_of_def unixToInternal_def)
  from a have "Unix (trunc x) = trunc x * Second" by (simp add: Unix_plain)
  with a i show "GetTokenExpiry E tok t =
          Inr (True, max minDuration (min maxDuration (trunc x * Second - t)))"
    by (auto simp: GetTokenExpiry_def exp_claim_def Sub_def Let_def
        minDuration_def maxDuration_def)
next
  fix x assume a: "Claims tok ''exp'' = Some (CNumber x) \<and> x \<noteq> 0 \<and>
        2 ^ 63 \<le> trunc x + unixToInternal \<and> trunc x < 2 ^ 63"
  then have i: "int64_of E x = trunc x"
    by (simp add: int64_of_def unixToInternal_def)
  from a have "Unix (trunc x) = (trunc x - 2 ^ 64) * Second" by (simp add: Unix_wrapped)
  with a i show "GetTokenExpiry E tok t =
          Inr (True, max minDuration (min maxDuration ((trunc x - 2 ^ 64) * Second - t)))"
    by (auto simp: GetTokenExpiry_def exp_claim_def Sub_def Let_def
        minDuration_def maxDuration_def)
next
  fix n :: int assume a: "Claims tok ''exp'' = Some (CNumber (of_int n)) \<and> n \<noteq> 0 \<and>
        - (2 ^ 63) \<le> n \<and> n + unixToInternal < 2 ^ 63 \<and>
        minDuration \<le> n * Second - t \<and> n * Second - t \<le> maxDuration"
  have tr: "trunc (of_int n) = n" by (simp add: trunc_def)
  from a tr have i: "int64_of E (of_int n) = n"
    by (simp add: int64_of_def unixToInternal_def)
  from a have "Unix n = n * Second" by (simp add: Unix_plain)
  with a i show "GetTokenExpiry E tok t = Inr (True, n * Second - t)"
    by (auto simp: GetTokenExpiry_def exp_claim_def Sub_def Let_def)
qed

text \<open>An instance: a token that expires sixty seconds after the time of the call.\<close>

theorem GetTokenExpiry_remaining_witness:
  "GetTokenExpiry (example_env endpoint_down 3) token_exp_soon (1700000000 * Second) =
     Inr (True, 60 * Second)"
proof -
  let ?E = "example_env endpoint_down 3"
  have c: "Claims token_exp_soon ''exp'' = Some (CNumber (of_int 1700000060)) \<and>
           (1700000060 :: int) \<noteq> 0 \<and>
           - (2 ^ 63) \<le> (1700000060 :: int) \<and> 1700000060 + unixToInternal < 2 ^ 63 \<and>
           minDuration \<le> 1700000060 * Second - 1700000000 * Second \<and>
           1700000060 * Second - 1700000000 * Second \<le> maxDuration"
    by (simp add: token_exp_soon_def minDuration_def maxDuration_def Second_def
        unixToInternal_def)
  from GetTokenExpiry_remaining [of token_exp_soon ?E "1700000000 * Second"] c
  have "GetTokenExpiry ?E token_exp_soon (1700000000 * Second) =
        Inr (True, 1700000060 * Second - 1700000000 * Second)"
    by blast
  then show ?thesis by (simp add: Second_def)
qed

section \<open>The token endpoint client\<close>

text \<open>
  Claim C5.  A grant replaces the stored access and refresh tokens only when it succeeds
  end to end, and then with both decoded tokens; after any failure (no client, no
  response, wrong content type, unreadable or malformed body, error field, status other
  than 200, wrong token type, missing token, undecodable token) an error is reported and
  the wrapper, with both stored tokens, is as before.
\<close>

theorem grant_stores_pair_only_on_success:
  assumes "sendTokenFormTimed E frm s = ((code, result, err), s')"
  shows "(err = None \<longleftrightarrow> grant_succeeds E (roundtrip E (grants s @ [frm]))) \<and>
         (err \<noteq> None \<longrightarrow> wrapper s' = wrapper s) \<and>
         (err = None \<longrightarrow>
            (\<exists>r a b ta tb. roundtrip E (grants s @ [frm]) = Responded r \<and>
               AccessToken (Decoded r) = Some a \<and> ParseUnverified E a = Inr ta \<and>
               RefreshToken (Decoded r) = Some b \<and> ParseUnverified E b = Inr tb \<and>
               wrapper s' = (wrapper s)\<lparr>accessToken := Some ta, refreshToken := Some tb\<rparr>))"
proof (intro conjI impI)
  show "err = None \<longleftrightarrow> grant_succeeds E (roundtrip E (grants s @ [frm]))"
    by (rule sendTokenFormTimed_succeeds_iff [OF assms])
next
  assume "err \<noteq> None"
  then obtain e where "err = Some e" by auto
  with assms sendTokenFormTimed_failure [of E frm s code result e s']
  show "wrapper s' = wrapper s" by simp
next
  assume "err = None"
  with assms sendTokenFormTimed_success [of E frm s code result s']
  show "\<exists>r a b ta tb. roundtrip E (grants s @ [frm]) = Responded r \<and>
               AccessToken (Decoded r) = Some a \<and> ParseUnverified E a = Inr ta \<and>
               RefreshToken (Decoded r) = Some b \<and> ParseUnverified E b = Inr tb \<and>
               wrapper s' = (wrapper s)\<lparr>accessToken := Some ta, refreshToken := Some tb\<rparr>"
    by fastforce
qed

text \<open>
  An instance: the access token of the response decodes, the refresh token does not, and
  nothing is stored.
\<close>

theorem grant_stores_pair_only_on_success_witness:
  "sendTokenFormTimed (example_env (always half_decodable) 3)
      (clientCredentialsForm secret_wrapper) (example_state secret_wrapper) =
   ((200, Some (Decoded half_decodable), Some ''token contains an invalid number of segments''),
    (example_state secret_wrapper)\<lparr>grants := [clientCredentialsForm secret_wrapper]\<rparr>) \<and>
   \<not> grant_succeeds (example_env (always half_decodable) 3)
       (roundtrip (example_env (always half_decodable) 3)
          (grants (example_state secret_wrapper) @ [clientCredentialsForm secret_wrapper])) \<and>
   wrapper ((example_state secret_wrapper)\<lparr>grants := [clientCredentialsForm secret_wrapper]\<rparr>) =
   wrapper (example_state secret_wrapper)"
proof -
  have ev: "sendTokenFormTimed (example_env (always half_decodable) 3)
      (clientCredentialsForm secret_wrapper) (example_state secret_wrapper) =
   ((200, Some (Decoded half_decodable), Some ''token contains an invalid number of segments''),
    (example_state secret_wrapper)\<lparr>grants := [clientCredentialsForm secret_wrapper]\<rparr>)"
    by (simp add: sendTokenFormTimed_def example_env_def example_state_def json_response_def
        no_fields_def ParseUnverified_def decode0_def half_decodable_def always_def)
  from grant_stores_pair_only_on_success [OF ev] ev show ?thesis by simp
qed

text \<open>
  Claim C8.  For a response of the token endpoint the outcome is an error whenever the
  body has an \<open>error\<close> field, whenever the status is not 200, whenever \<open>token_type\<close> is
  present and is not exactly \<open>bearer\<close>, and whenever \<open>access_token\<close> or \<open>refresh_token\<close> is
  absent.  For a body that was parsed, the message is \<open>error: error_description\<close>, or just
  \<open>error\<close> without a description, and the status code message when there is no \<open>error\<close>
  field and the status is not 200.
\<close>

theorem endpoint_errors:
  assumes "roundtrip E (grants s @ [frm]) = Responded r"
    and "sendTokenFormTimed E frm s = ((code, result, err), s')"
  shows "((Error (Decoded r) \<noteq> None \<or> StatusCode r \<noteq> 200 \<or>
           (TokenType (Decoded r) \<noteq> None \<and> TokenType (Decoded r) \<noteq> Some ''bearer'') \<or>
           AccessToken (Decoded r) = None \<or> RefreshToken (Decoded r) = None)
          \<longrightarrow> err \<noteq> None) \<and>
         (ContentTypeError r = None \<and> ReadError r = None \<and> UnmarshalError r = None \<longrightarrow>
            (\<forall>e d. Error (Decoded r) = Some e \<and> ErrorDescription (Decoded r) = Some d \<longrightarrow>
                   err = Some (e @ '': '' @ d)) \<and>
            (\<forall>e. Error (Decoded r) = Some e \<and> ErrorDescription (Decoded r) = None \<longrightarrow>
                 err = Some e) \<and>
            (Error (Decoded r) = None \<and> StatusCode r \<noteq> 200 \<longrightarrow>
               err = Some (''token response status code is '' @ quoted (Itoa (StatusCode r)))))"
  using assms unfolding sendTokenFormTimed_def Let_def
  by (auto split: option.splits sum.splits if_splits; metis)

theorem endpoint_errors_witness:
  "roundtrip (example_env (always invalid_grant_response) 3)
     (grants (example_state secret_wrapper) @ [clientCredentialsForm secret_wrapper]) =
   Responded invalid_grant_response \<and>
   Error (Decoded invalid_grant_response) = Some ''invalid_grant'' \<and>
   ErrorDescription (Decoded invalid_grant_response) = Some ''Session not active'' \<and>
   fst (sendTokenFormTimed (example_env (always invalid_grant_response) 3)
      (clientCredentialsForm secret_wrapper) (example_state secret_wrapper)) =
   (400, Some (Decoded invalid_grant_response), Some ''invalid_grant: Session not active'')"
proof -
  let ?E = "example_env (always invalid_grant_response) 3"
  let ?f = "clientCredentialsForm secret_wrapper"
  let ?s = "example_state secret_wrapper"
  have rt: "roundtrip ?E (grants ?s @ [?f]) = Responded invalid_grant_response"
    by (simp add: example_env_def always_def)
  have fields: "ContentTypeError invalid_grant_response = None \<and>
      ReadError invalid_grant_response = None \<and> UnmarshalError invalid_grant_response = None \<and>
      Error (Decoded invalid_grant_response) = Some ''invalid_grant'' \<and>
      ErrorDescription (Decoded invalid_grant_response) = Some ''Session not active'' \<and>
      StatusCode invalid_grant_response = 400"
    by (simp add: invalid_grant_response_def json_response_def no_fields_def)
  obtain code result err s' where
    ev: "sendTokenFormTimed ?E ?f ?s = ((code, result, err), s')"
    by (metis prod_cases3 surj_pair)
  from endpoint_errors [OF rt ev] fields
  have e: "err = Some (''invalid_grant'' @ '': '' @ ''Session not active'')" by blast
  have c: "code = 400"
    using sendTokenFormTimed_code [OF ev] rt fields by (simp add: code_of_def)
  have r: "result = Some (Decoded invalid_grant_response)"
    using ev rt fields unfolding sendTokenFormTimed_def Let_def by auto
  from rt fields ev e c r show ?thesis by simp
qed

section \<open>The retry loop\<close>

lemmas model_defs =
  Tokens_def expiresDuration_def operation_def tokens_def expiry_of_def after_grant_def
  sendRequestTokenForm_def sendRefreshTokenForm_def sendTokenForm_def sendTokenFormTimed_def
  haveCredentials_def havePassword_def haveSecret_def currentTokens_def ParseUnverified_def
  GetTokenExpiry_def exp_claim_def quoted_def Itoa_def Itoa_nat.simps digit_def Let_def
  Sub_def Unix_def int64_of_def trunc_def wrap64_def unixToInternal_def Second_def Minute_def
  tokenExpiry_def maxDuration_def
  minDuration_def passwordForm_def clientCredentialsForm_def refreshTokenForm_def

lemmas example_defs =
  example_env_def example_state_def example_wrapper_def secret_wrapper_def json_response_def
  no_fields_def decode0_def always_def endpoint_down_def invalid_grant_response_def
  unavailable_response_def bearer_no_exp_def refresh_no_exp_def

lemma Retry_stops:
  "\<forall>e. fst (opn st) \<noteq> Some (Retryable e) \<Longrightarrow> Retry opn n st = snd (opn st)"
  by (cases n) (auto split: prod.splits option.splits op_error.splits)

lemma Retry_unfold:
  "Retry opn (Suc n) st =
     (if \<exists>e. fst (opn st) = Some (Retryable e) then Retry opn n (snd (opn st))
      else snd (opn st))"
  by (auto split: prod.splits option.splits op_error.splits)

lemma operation_eq:
  "operation E d ((n, a0, r0, e0), s) = (res, (n', a, r, e), s') \<Longrightarrow>
   \<exists>code. tokens E (n + 1) d s = ((code, a, r, e), s') \<and> n' = n + 1 \<and>
      res = (case e of None \<Rightarrow> None
             | Some m \<Rightarrow> if 500 \<le> code then Some (Retryable m) else Some (Permanent m))"
  unfolding operation_def
  by (auto split: prod.splits option.splits if_splits)

lemma Tokens_first_attempt:
  assumes "tokens E 1 (expiresDuration ds) s = ((code, a, r, e), s')"
    and "e = None \<or> code < 500"
  shows "Tokens E ds s = ((a, r, e), s')"
proof -
  have op: "operation E (expiresDuration ds) ((0, [], [], None), s) =
      ((case e of None \<Rightarrow> None | Some m \<Rightarrow> Some (Permanent m)), (1, a, r, e), s')"
    using assms unfolding operation_def by (auto split: option.splits)
  then have "\<forall>m. fst (operation E (expiresDuration ds) ((0, [], [], None), s)) \<noteq>
      Some (Retryable m)"
    by (auto split: option.splits)
  then have "Retry (operation E (expiresDuration ds)) (retries E) ((0, [], [], None), s) =
      snd (operation E (expiresDuration ds) ((0, [], [], None), s))"
    by (rule Retry_stops)
  with op show ?thesis
    unfolding Tokens_def by simp
qed

text \<open>
  Claim C1, as stated, fails when the network call produces no response: the attempt
  reports code 0, the error is marked permanent, and \<open>Tokens\<close> returns after one request
  although the policy would have granted three more attempts.
\<close>

theorem network_failure_not_retried_counterexample:
  "retries (example_env endpoint_down 3) = 3 \<and>
   roundtrip (example_env endpoint_down 3) [clientCredentialsForm secret_wrapper] =
     DoFailed ''connection refused'' \<and>
   fst (operation (example_env endpoint_down 3) tokenExpiry
          ((0, [], [], None), example_state secret_wrapper)) =
     Some (Permanent ''can't send request: connection refused'') \<and>
   Tokens (example_env endpoint_down 3) [] (example_state secret_wrapper) =
     (([], [], Some ''can't send request: connection refused''),
      (example_state secret_wrapper)\<lparr>grants := [clientCredentialsForm secret_wrapper]\<rparr>)"
  by (simp add: model_defs example_defs eval_nat_numeral)

text \<open>
  Claim C1, amended.  A failed attempt is handed to the back-off loop as retryable if and
  only if the last token request of the attempt received a response with a status of 500
  or more; otherwise it is marked permanent.  In particular an attempt whose last request
  produced no response (code 0), like one that ended in a response below 500 or that sent
  no request, is permanent.  The loop runs the operation again exactly after a retryable
  failure, while the policy grants another attempt.
\<close>

theorem retry_only_on_server_error:
  assumes "operation E d ((n, a0, r0, e0), s) = (res, (n', a, r, e), s')"
  shows "(e = None \<longrightarrow> res = None) \<and>
         (\<forall>m. e = Some m \<longrightarrow>
            (res = Some (Retryable m) \<or> res = Some (Permanent m)) \<and>
            (res = Some (Retryable m) \<longleftrightarrow>
               grants s' \<noteq> grants s \<and>
               (\<exists>rsp. roundtrip E (grants s') = Responded rsp \<and> 500 \<le> StatusCode rsp))) \<and>
         (\<forall>m x. e = Some m \<and>
                (roundtrip E (grants s') = DoFailed x \<or> roundtrip E (grants s') = SelectFailed x)
            \<longrightarrow> res = Some (Permanent m)) \<and>
         Retry (operation E d) (Suc k) ((n, a0, r0, e0), s) =
           (if \<exists>m. res = Some (Retryable m)
            then Retry (operation E d) k ((n', a, r, e), s')
            else ((n', a, r, e), s'))"
proof -
  from operation_eq [OF assms] obtain code where
    t: "tokens E (n + 1) d s = ((code, a, r, e), s')" and
    res: "res = (case e of None \<Rightarrow> None
             | Some m \<Rightarrow> if 500 \<le> code then Some (Retryable m) else Some (Permanent m))"
    by blast
  from tokens_code [OF t] have
    c: "(s' = s \<and> code = 0) \<or>
         ((\<exists>f ext. grants s' = grants s @ f # ext) \<and> code = code_of (roundtrip E (grants s')))" .
  have iff: "500 \<le> code \<longleftrightarrow>
       grants s' \<noteq> grants s \<and>
       (\<exists>rsp. roundtrip E (grants s') = Responded rsp \<and> 500 \<le> StatusCode rsp)"
    using c by (auto simp: code_of_def split: reply.splits)
  have perm: "\<And>x. roundtrip E (grants s') = DoFailed x \<or> roundtrip E (grants s') = SelectFailed x
      \<Longrightarrow> \<not> 500 \<le> code"
    using iff by auto
  show ?thesis
    using res iff perm assms
    by (auto simp: Retry_unfold split: option.splits if_splits)
qed

text \<open>An instance: the endpoint answers 503, and the loop goes on to a second attempt.\<close>

theorem retry_only_on_server_error_witness:
  "operation (example_env (always unavailable_response) 3) tokenExpiry
     ((0, [], [], None), example_state secret_wrapper) =
   (Some (Retryable (''token response status code is '' @ quoted ''503'')),
    (1, [], [], Some (''token response status code is '' @ quoted ''503'')),
    (example_state secret_wrapper)\<lparr>grants := [clientCredentialsForm secret_wrapper]\<rparr>) \<and>
   Retry (operation (example_env (always unavailable_response) 3) tokenExpiry) (Suc 2)
     ((0, [], [], None), example_state secret_wrapper) =
   Retry (operation (example_env (always unavailable_response) 3) tokenExpiry) 2
     ((1, [], [], Some (''token response status code is '' @ quoted ''503'')),
      (example_state secret_wrapper)\<lparr>grants := [clientCredentialsForm secret_wrapper]\<rparr>)"
proof -
  have ev: "operation (example_env (always unavailable_response) 3) tokenExpiry
     ((0, [], [], None), example_state secret_wrapper) =
   (Some (Retryable (''token response status code is '' @ quoted ''503'')),
    (1, [], [], Some (''token response status code is '' @ quoted ''503'')),
    (example_state secret_wrapper)\<lparr>grants := [clientCredentialsForm secret_wrapper]\<rparr>)"
    by (simp add: model_defs example_defs)
  from retry_only_on_server_error [OF ev, of 2] ev show ?thesis by simp
qed

section \<open>The decision procedure\<close>

lemma numeric_exp_expiry:
  "numeric_exp t \<Longrightarrow> \<exists>x. GetTokenExpiry E t now = Inr x"
  unfolding numeric_exp_def GetTokenExpiry_def exp_claim_def
  by (auto split: option.splits claim.splits)

text \<open>
  Claim C2, as stated, fails when the stored refresh token carries an \<open>exp\<close> claim that
  is not a number: the expiry of both tokens is computed first, and the error of the
  second is returned although the access token never expires.
\<close>

theorem fresh_access_refresh_malformed_counterexample:
  "accessToken (wrapper (example_state
      (example_wrapper [] (Some bearer_no_exp) (Some refresh_bad_exp)))) = Some bearer_no_exp \<and>
   Claims bearer_no_exp ''exp'' = None \<and>
   Tokens (example_env endpoint_down 3) []
      (example_state (example_wrapper [] (Some bearer_no_exp) (Some refresh_bad_exp))) =
     (([], [], Some ''expected floating point 'exp' but got string''),
      example_state (example_wrapper [] (Some bearer_no_exp) (Some refresh_bad_exp)))"
  by (simp add: model_defs example_defs refresh_bad_exp_def eval_nat_numeral)

text \<open>
  Claim C2, amended.  When an access token is stored that carries no \<open>exp\<close> claim or has
  at least the freshness window left at the time of the call, and the stored refresh
  token, if any, carries no \<open>exp\<close> claim or a numeric one, \<open>Tokens\<close> returns the texts of
  the stored access and refresh tokens and no error, and the state is as before: no token
  request was made, and the stored pair is unchanged.
\<close>

theorem fresh_access_token_is_returned:
  assumes "accessToken (wrapper s) = Some t"
    and "Claims t ''exp'' = None \<or>
         (\<exists>left. GetTokenExpiry E t (Now E 1) = Inr (True, left) \<and> expiresDuration ds \<le> left)"
    and "\<forall>rt. refreshToken (wrapper s) = Some rt \<longrightarrow> numeric_exp rt"
  shows "Tokens E ds s =
           ((Raw t, (case refreshToken (wrapper s) of Some rt \<Rightarrow> Raw rt | None \<Rightarrow> []), None), s)"
proof -
  have "\<exists>ex left. GetTokenExpiry E t (Now E 1) = Inr (ex, left) \<and>
      (\<not> ex \<or> expiresDuration ds \<le> left)"
    using assms(2) by (auto simp: GetTokenExpiry_def exp_claim_def)
  then obtain ex left where a: "GetTokenExpiry E t (Now E 1) = Inr (ex, left)"
    and fresh: "\<not> ex \<or> expiresDuration ds \<le> left"
    by blast
  have "\<exists>x. expiry_of E (refreshToken (wrapper s)) (Now E 1) = Inr x"
  proof (cases "refreshToken (wrapper s)")
    case None
    then show ?thesis by (auto simp: expiry_of_def)
  next
    case (Some rt)
    with assms(3) have "numeric_exp rt" by simp
    from numeric_exp_expiry [OF this] Some show ?thesis by (simp add: expiry_of_def)
  qed
  then obtain x where r: "expiry_of E (refreshToken (wrapper s)) (Now E 1) = Inr x" ..
  have "tokens E 1 (expiresDuration ds) s =
      ((0, Raw t, (case refreshToken (wrapper s) of Some rt \<Rightarrow> Raw rt | None \<Rightarrow> []), None), s)"
    using assms(1) a fresh r
    unfolding tokens_def Let_def currentTokens_def
    by (cases x) (auto simp: expiry_of_def)
  from Tokens_first_attempt [OF this] show ?thesis by simp
qed

text \<open>An instance, with a transport that fails whenever it is invoked.\<close>

theorem fresh_access_token_is_returned_witness:
  "Tokens (example_env endpoint_down 3) []
      (example_state (example_wrapper [] (Some bearer_no_exp) (Some refresh_no_exp))) =
   ((''A1'', ''R1'', None),
    example_state (example_wrapper [] (Some bearer_no_exp) (Some refresh_no_exp)))"
proof -
  let ?s = "example_state (example_wrapper [] (Some bearer_no_exp) (Some refresh_no_exp))"
  have 1: "accessToken (wrapper ?s) = Some bearer_no_exp"
    by (simp add: example_defs)
  have 2: "Claims bearer_no_exp ''exp'' = None \<or>
         (\<exists>left. GetTokenExpiry (example_env endpoint_down 3) bearer_no_exp
             (Now (example_env endpoint_down 3) 1) =
             Inr (True, left) \<and> expiresDuration [] \<le> left)"
    by (simp add: example_defs)
  have 3: "\<forall>rt. refreshToken (wrapper ?s) = Some rt \<longrightarrow> numeric_exp rt"
    by (simp add: example_defs numeric_exp_def)
  from fresh_access_token_is_returned [OF 1 2 3]
  show ?thesis by (simp add: example_defs)
qed

lemma sendRefreshTokenForm_no_credentials:
  assumes "\<not> haveCredentials (wrapper s)"
  shows "sendRefreshTokenForm E n rt s = sendTokenForm E (refreshTokenForm (wrapper s) rt) n s"
proof -
  obtain c1 r1 e1 s1
    where g: "sendTokenForm E (refreshTokenForm (wrapper s) rt) n s = ((c1, r1, e1), s1)"
    by (metis prod_cases3 surj_pair)
  have "e1 \<noteq> None \<Longrightarrow> \<not> haveCredentials (wrapper s1)"
    using sendTokenForm_failure [of E _ n s c1 r1 _ s1] g assms by auto
  then show ?thesis
    using g unfolding sendRefreshTokenForm_def Let_def
    by (auto split: option.splits)
qed

lemma sendRequestTokenForm_with_credentials:
  "haveCredentials (wrapper s) \<Longrightarrow>
   sendRequestTokenForm E n s = sendTokenForm E (requestForm (wrapper s)) n s"
  unfolding sendRequestTokenForm_def requestForm_def haveCredentials_def Let_def
  by auto

lemma tokens_grants:
  "\<exists>ext. grants (snd (tokens E n d s)) = grants s @ ext"
proof -
  obtain code a r e s' where t: "tokens E n d s = ((code, a, r, e), s')"
    by (metis prod_cases4 surj_pair)
  from tokens_code [OF t] t show ?thesis by auto
qed

lemma operation_grants:
  "\<exists>ext. grants (snd (snd (operation E d (v, s)))) = grants s @ ext"
proof -
  obtain n a0 r0 e0 where v: "v = (n, a0, r0, e0)" by (metis prod_cases4)
  obtain x s' where t: "tokens E (n + 1) d s = (x, s')" by (metis surj_pair)
  from tokens_grants [of E "n + 1" d s] t have "\<exists>ext. grants s' = grants s @ ext" by simp
  then show ?thesis
    using t v unfolding operation_def
    by (auto split: prod.splits option.splits)
qed

lemma Retry_grants:
  "\<exists>ext. grants (snd (Retry (operation E d) k (v, s))) = grants s @ ext"
proof (induction k arbitrary: v s)
  case 0
  then show ?case using operation_grants [of E d v s] by simp
next
  case (Suc k)
  obtain res v1 s1 where op: "operation E d (v, s) = (res, v1, s1)"
    by (metis prod_cases3)
  from operation_grants [of E d v s] op obtain ext1 where 1: "grants s1 = grants s @ ext1"
    by auto
  from Suc.IH [of v1 s1] obtain ext2
    where 2: "grants (snd (Retry (operation E d) k (v1, s1))) = grants s1 @ ext2"
    by auto
  show ?case
    using op 1 2 by (auto split: option.splits op_error.splits)
qed

lemma Retry_after_first:
  "\<exists>ext. grants (snd (Retry (operation E d) k (v, s))) =
         grants (snd (snd (operation E d (v, s)))) @ ext"
proof (cases k)
  case 0
  then show ?thesis by simp
next
  case (Suc j)
  obtain res v1 s1 where op: "operation E d (v, s) = (res, v1, s1)"
    by (metis prod_cases3)
  from Retry_grants [of E d j v1 s1] obtain ext
    where "grants (snd (Retry (operation E d) j (v1, s1))) = grants s1 @ ext"
    by auto
  then show ?thesis
    using op Suc by (auto split: option.splits op_error.splits)
qed

lemma Tokens_after_first:
  assumes "tokens E 1 (expiresDuration ds) s = (x, s1)"
  shows "\<exists>ext. grants (snd (Tokens E ds s)) = grants s1 @ ext"
proof -
  have "snd (snd (operation E (expiresDuration ds) ((0, [], [], None), s))) = s1"
    using assms unfolding operation_def by (auto split: prod.splits option.splits)
  with Retry_after_first [of E "expiresDuration ds" "retries E" "(0, [], [], None)" s]
  show ?thesis
    unfolding Tokens_def by (auto split: prod.splits)
qed

lemma not_usable_expiry:
  assumes "\<not> usable E tk now d"
    and "\<forall>t. tk = Some t \<longrightarrow> numeric_exp t"
  shows "\<exists>ex left. expiry_of E tk now = Inr (ex, left) \<and>
           \<not> (tk \<noteq> None \<and> (\<not> ex \<or> d \<le> left)) \<and>
           (lifetime_left E tk now \<longleftrightarrow> tk \<noteq> None \<and> 0 < left)"
proof (cases tk)
  case None
  then show ?thesis by (auto simp: expiry_of_def lifetime_left_def)
next
  case (Some t)
  with assms(2) have "numeric_exp t" by simp
  from numeric_exp_expiry [OF this, of E now] obtain ex left
    where "GetTokenExpiry E t now = Inr (ex, left)" by auto
  with assms(1) Some show ?thesis
    by (auto simp: usable_def expiry_of_def lifetime_left_def)
qed

text \<open>
  Claim C6, as stated, fails when a stored token carries an \<open>exp\<close> claim that is not a
  number.  Here the access token has thirty seconds left, the refresh token cannot be
  used, and there are no credentials: the claim has the access token returned, but the
  call ends with the error of the refresh token's \<open>exp\<close> claim, which is none of the
  three outcomes.
\<close>

theorem fallback_malformed_exp_counterexample:
  "\<not> usable (example_env endpoint_down 3)
       (accessToken (example_wrapper [] (Some bearer_expiring) (Some refresh_bad_exp)))
       (Now (example_env endpoint_down 3) 1) (expiresDuration []) \<and>
   \<not> usable (example_env endpoint_down 3)
       (refreshToken (example_wrapper [] (Some bearer_expiring) (Some refresh_bad_exp)))
       (Now (example_env endpoint_down 3) 1) (expiresDuration []) \<and>
   \<not> haveCredentials (example_wrapper [] (Some bearer_expiring) (Some refresh_bad_exp)) \<and>
   \<not> lifetime_left (example_env endpoint_down 3)
       (refreshToken (example_wrapper [] (Some bearer_expiring) (Some refresh_bad_exp)))
       (Now (example_env endpoint_down 3) 1) \<and>
   lifetime_left (example_env endpoint_down 3)
       (accessToken (example_wrapper [] (Some bearer_expiring) (Some refresh_bad_exp)))
       (Now (example_env endpoint_down 3) 1) \<and>
   Tokens (example_env endpoint_down 3) []
      (example_state (example_wrapper [] (Some bearer_expiring) (Some refresh_bad_exp))) =
     (([], [], Some ''expected floating point 'exp' but got string''),
      example_state (example_wrapper [] (Some bearer_expiring) (Some refresh_bad_exp)))"
  by (simp add: usable_def lifetime_left_def model_defs example_defs bearer_expiring_def
      refresh_bad_exp_def eval_nat_numeral)

text \<open>
  Claim C6, amended.  When neither stored token is usable under the freshness window,
  the \<open>exp\<close> claim of each stored token is absent or a number, and there are no credentials,
  \<open>Tokens\<close> falls back in this order: with a refresh token that has some lifetime left, the
  attempt is a refresh grant, the first request of the call; else with an access token
  that has some lifetime left, that token is returned; else the call fails with the
  message that the tokens are unavailable or expired and there is nothing to request new
  ones with.  In the last two cases the state is as before, so no request was made.
\<close>

theorem fallback_without_credentials:
  assumes "\<not> usable E (accessToken (wrapper s)) (Now E 1) (expiresDuration ds)"
    and "\<not> usable E (refreshToken (wrapper s)) (Now E 1) (expiresDuration ds)"
    and "\<forall>t. accessToken (wrapper s) = Some t \<longrightarrow> numeric_exp t"
    and "\<forall>t. refreshToken (wrapper s) = Some t \<longrightarrow> numeric_exp t"
    and "\<not> haveCredentials (wrapper s)"
  shows "(lifetime_left E (refreshToken (wrapper s)) (Now E 1) \<longrightarrow>
            (\<exists>rt ext. refreshToken (wrapper s) = Some rt \<and>
               tokens E 1 (expiresDuration ds) s =
                 after_grant (sendTokenForm E (refreshTokenForm (wrapper s) rt) 1 s) \<and>
               grants (snd (Tokens E ds s)) =
                 grants s @ refreshTokenForm (wrapper s) rt # ext)) \<and>
         (\<not> lifetime_left E (refreshToken (wrapper s)) (Now E 1) \<and>
          lifetime_left E (accessToken (wrapper s)) (Now E 1) \<longrightarrow>
            (\<exists>t. accessToken (wrapper s) = Some t \<and>
               Tokens E ds s = ((Raw t, snd (currentTokens (wrapper s)), None), s))) \<and>
         (\<not> lifetime_left E (refreshToken (wrapper s)) (Now E 1) \<and>
          \<not> lifetime_left E (accessToken (wrapper s)) (Now E 1) \<longrightarrow>
            Tokens E ds s =
              (([], [],
                Some (''access and refresh tokens are unavailable or expired, and there are no ''
                      @ ''password or client secret to request new ones'')), s))"
proof -
  let ?w = "wrapper s" and ?now = "Now E 1" and ?d = "expiresDuration ds"
  from not_usable_expiry [OF assms(1) assms(3)] obtain aex aleft where
    a: "expiry_of E (accessToken ?w) ?now = Inr (aex, aleft)" and
    an: "\<not> (accessToken ?w \<noteq> None \<and> (\<not> aex \<or> ?d \<le> aleft))" and
    al: "lifetime_left E (accessToken ?w) ?now \<longleftrightarrow> accessToken ?w \<noteq> None \<and> 0 < aleft"
    by blast
  from not_usable_expiry [OF assms(2) assms(4)] obtain rex rleft where
    r: "expiry_of E (refreshToken ?w) ?now = Inr (rex, rleft)" and
    rn: "\<not> (refreshToken ?w \<noteq> None \<and> (\<not> rex \<or> ?d \<le> rleft))" and
    rl: "lifetime_left E (refreshToken ?w) ?now \<longleftrightarrow> refreshToken ?w \<noteq> None \<and> 0 < rleft"
    by blast
  have t: "tokens E 1 ?d s =
      (if refreshToken ?w \<noteq> None \<and> 0 < rleft then
         after_grant (sendRefreshTokenForm E 1 (the (refreshToken ?w)) s)
       else if accessToken ?w \<noteq> None \<and> 0 < aleft then
         ((0, fst (currentTokens ?w), snd (currentTokens ?w), None), s)
       else
         ((0, [], [],
           Some (''access and refresh tokens are unavailable or expired, and there are no ''
                 @ ''password or client secret to request new ones'')), s))"
    using a an r rn assms(5) unfolding tokens_def Let_def by auto
  show ?thesis
  proof (intro conjI impI)
    assume "lifetime_left E (refreshToken ?w) ?now"
    with rl obtain rt where rt: "refreshToken ?w = Some rt" and pos: "0 < rleft" by auto
    have t1: "tokens E 1 ?d s = after_grant (sendTokenForm E (refreshTokenForm ?w rt) 1 s)"
      using t rt pos sendRefreshTokenForm_no_credentials [OF assms(5)] by simp
    obtain c1 r1 e1 s1 where g: "sendTokenForm E (refreshTokenForm ?w rt) 1 s = ((c1, r1, e1), s1)"
      by (metis prod_cases3 surj_pair)
    from sendTokenForm_code [OF g] have g1: "grants s1 = grants s @ [refreshTokenForm ?w rt]"
      by simp
    have "snd (tokens E 1 ?d s) = s1"
      using t1 g unfolding after_grant_def by (auto split: option.splits)
    then obtain x where "tokens E 1 ?d s = (x, s1)" by (metis prod.collapse)
    from Tokens_after_first [OF this] g1
    have "\<exists>ext. grants (snd (Tokens E ds s)) = grants s @ refreshTokenForm ?w rt # ext"
      by auto
    with rt t1
    show "\<exists>rt ext. refreshToken ?w = Some rt \<and>
               tokens E 1 ?d s = after_grant (sendTokenForm E (refreshTokenForm ?w rt) 1 s) \<and>
               grants (snd (Tokens E ds s)) = grants s @ refreshTokenForm ?w rt # ext"
      by blast
  next
    assume "\<not> lifetime_left E (refreshToken ?w) ?now \<and> lifetime_left E (accessToken ?w) ?now"
    with rl al obtain tk where tk: "accessToken ?w = Some tk" and pos: "0 < aleft"
      and nr: "\<not> (refreshToken ?w \<noteq> None \<and> 0 < rleft)" by auto
    have "tokens E 1 ?d s = ((0, Raw tk, snd (currentTokens ?w), None), s)"
      using t tk pos nr by (auto simp: currentTokens_def)
    from Tokens_first_attempt [OF this] tk
    show "\<exists>t. accessToken ?w = Some t \<and>
             Tokens E ds s = ((Raw t, snd (currentTokens ?w), None), s)"
      by simp
  next
    assume "\<not> lifetime_left E (refreshToken ?w) ?now \<and> \<not> lifetime_left E (accessToken ?w) ?now"
    with rl al have "tokens E 1 ?d s =
         ((0, [], [],
           Some (''access and refresh tokens are unavailable or expired, and there are no ''
                 @ ''password or client secret to request new ones'')), s)"
      using t by auto
    from Tokens_first_attempt [OF this]
    show "Tokens E ds s =
              (([], [],
                Some (''access and refresh tokens are unavailable or expired, and there are no ''
                      @ ''password or client secret to request new ones'')), s)"
      by simp
  qed
qed


text \<open>An instance: an access token with thirty seconds left and nothing else.\<close>

theorem fallback_without_credentials_witness:
  "Tokens (example_env endpoint_down 3) []
      (example_state (example_wrapper [] (Some bearer_expiring) None)) =
   ((''A3'', [], None), example_state (example_wrapper [] (Some bearer_expiring) None))"
proof -
  let ?s = "example_state (example_wrapper [] (Some bearer_expiring) None)"
  let ?E = "example_env endpoint_down 3"
  have 1: "\<not> usable ?E (accessToken (wrapper ?s)) (Now ?E 1) (expiresDuration [])"
    by (simp add: usable_def model_defs example_defs bearer_expiring_def)
  have 2: "\<not> usable ?E (refreshToken (wrapper ?s)) (Now ?E 1) (expiresDuration [])"
    by (simp add: usable_def example_defs)
  have 3: "\<forall>t. accessToken (wrapper ?s) = Some t \<longrightarrow> numeric_exp t"
    by (simp add: example_defs numeric_exp_def bearer_expiring_def)
  have 4: "\<forall>t. refreshToken (wrapper ?s) = Some t \<longrightarrow> numeric_exp t"
    by (simp add: example_defs)
  have 5: "\<not> haveCredentials (wrapper ?s)"
    by (simp add: model_defs example_defs)
  have 6: "\<not> lifetime_left ?E (refreshToken (wrapper ?s)) (Now ?E 1) \<and>
           lifetime_left ?E (accessToken (wrapper ?s)) (Now ?E 1)"
    by (simp add: lifetime_left_def model_defs example_defs bearer_expiring_def)
  from fallback_without_credentials [OF 1 2 3 4 5] 6
  have "\<exists>t. accessToken (wrapper ?s) = Some t \<and>
           Tokens ?E [] ?s = ((Raw t, snd (currentTokens (wrapper ?s)), None), ?s)"
    by blast
  then show ?thesis
    by (simp add: example_defs currentTokens_def bearer_expiring_def)
qed

lemma sendTokenFormTimed_rejected:
  assumes "roundtrip E (grants s @ [frm]) = Responded r"
    and "ContentTypeError r = None" and "ReadError r = None"
    and "Error (Decoded r) = Some c"
  shows "\<exists>e. sendTokenFormTimed E frm s =
           ((StatusCode r, Some (Decoded r), Some e), s\<lparr>grants := grants s @ [frm]\<rparr>)"
  using assms unfolding sendTokenFormTimed_def Let_def
  by (auto split: option.splits)

lemma sendTokenForm_rejected:
  assumes "roundtrip E (grants s @ [frm]) = Responded r"
    and "ContentTypeError r = None" and "ReadError r = None"
    and "Error (Decoded r) = Some c"
  shows "\<exists>e s1. sendTokenForm E frm n s = ((StatusCode r, Some (Decoded r), Some e), s1) \<and>
           wrapper s1 = wrapper s \<and> grants s1 = grants s @ [frm]"
proof -
  from sendTokenFormTimed_rejected [OF assms] obtain e where
    "sendTokenFormTimed E frm s =
       ((StatusCode r, Some (Decoded r), Some e), s\<lparr>grants := grants s @ [frm]\<rparr>)" ..
  then show ?thesis
    unfolding sendTokenForm_def Let_def by auto
qed


text \<open>
  Claim C4, as stated, fails when the follow-up grant is answered with a server error:
  the attempt is retried, the refresh grant is rejected again, and a second follow-up
  grant goes out within the same call.
\<close>

theorem two_follow_up_grants_counterexample:
  "haveCredentials session_wrapper \<and>
   roundtrip (example_env session_lost 3) [refreshTokenForm session_wrapper refresh_no_exp] =
     Responded invalid_grant_response \<and>
   fst (Tokens (example_env session_lost 3) [] (example_state session_wrapper)) =
     (''A2'', ''R1'', None) \<and>
   grant_types (snd (Tokens (example_env session_lost 3) [] (example_state session_wrapper))) =
     [Some ''refresh_token'', Some ''client_credentials'',
      Some ''refresh_token'', Some ''client_credentials'']"
proof -
  let ?E = "example_env session_lost 3"
  let ?s0 = "example_state session_wrapper"
  let ?rf = "refreshTokenForm session_wrapper refresh_no_exp"
  let ?cf = "clientCredentialsForm session_wrapper"
  let ?msg = "''token response status code is '' @ quoted ''503''"
  let ?s2 = "?s0\<lparr>grants := [?rf, ?cf, ?rf, ?cf],
      wrapper := session_wrapper
        \<lparr>accessToken := Some \<lparr>Raw = ''A2'', Claims = [''typ'' \<mapsto> CString ''Bearer'',
                                                     ''exp'' \<mapsto> CNumber 1700000900]\<rparr>,
         refreshToken := Some refresh_no_exp\<rparr>\<rparr>"
  have c: "haveCredentials session_wrapper"
    by (simp add: model_defs example_defs session_wrapper_def session_lost_def ok_response_def)
  have r: "roundtrip ?E [?rf] = Responded invalid_grant_response"
    by (simp add: model_defs example_defs session_wrapper_def session_lost_def ok_response_def)
  have t1: "tokens ?E 1 tokenExpiry ?s0 = ((503, [], [], Some ?msg), ?s0\<lparr>grants := [?rf, ?cf]\<rparr>)"
    by (simp add: model_defs example_defs session_wrapper_def session_lost_def ok_response_def)
  have t2: "tokens ?E 2 tokenExpiry (?s0\<lparr>grants := [?rf, ?cf]\<rparr>) =
      ((200, ''A2'', ''R1'', None), ?s2)"
    by (simp add: model_defs example_defs session_wrapper_def session_lost_def ok_response_def)
  have o1: "operation ?E tokenExpiry ((0, [], [], None), ?s0) =
      (Some (Retryable ?msg), (1, [], [], Some ?msg), ?s0\<lparr>grants := [?rf, ?cf]\<rparr>)"
    unfolding operation_def using t1 by simp
  have o2: "operation ?E tokenExpiry ((1, [], [], Some ?msg), ?s0\<lparr>grants := [?rf, ?cf]\<rparr>) =
      (None, (2, ''A2'', ''R1'', None), ?s2)"
    unfolding operation_def using t2 by simp
  have "Retry (operation ?E tokenExpiry) (Suc (Suc (Suc 0))) ((0, [], [], None), ?s0) =
      ((2, ''A2'', ''R1'', None), ?s2)"
    using o1 o2 by simp
  then have "Tokens ?E [] ?s0 = ((''A2'', ''R1'', None), ?s2)"
    unfolding Tokens_def
    by (simp add: expiresDuration_def example_env_def eval_nat_numeral)
  moreover have "grant_types ?s2 =
     [Some ''refresh_token'', Some ''client_credentials'',
      Some ''refresh_token'', Some ''client_credentials'']"
    by (simp add: grant_types_def refreshTokenForm_def clientCredentialsForm_def)
  ultimately show ?thesis using c r by simp
qed

text \<open>
  Claim C4, amended.  In every attempt of a call in which the refresh grant is sent (the
  access token is not usable and its \<open>exp\<close> claim, if any, is a number, the refresh token is
  usable) and is answered with an
  \<open>invalid_grant\<close> error while credentials are configured, exactly one password or client
  credentials grant follows in that attempt, and the outcome of the attempt is the outcome
  of that grant; the rejected refresh grant leaves the wrapper unchanged.  (A call makes
  a further attempt only when the follow-up fails with a status of 500 or more.)
\<close>

theorem invalid_grant_falls_back_once:
  assumes "\<not> usable E (accessToken (wrapper s)) (Now E n) d"
    and "\<forall>t. accessToken (wrapper s) = Some t \<longrightarrow> numeric_exp t"
    and "refreshToken (wrapper s) = Some rt"
    and "usable E (Some rt) (Now E n) d"
    and "haveCredentials (wrapper s)"
    and "roundtrip E (grants s @ [refreshTokenForm (wrapper s) rt]) = Responded r"
    and "ContentTypeError r = None" and "ReadError r = None"
    and "Error (Decoded r) = Some ''invalid_grant''"
  shows "\<exists>e s1. sendTokenForm E (refreshTokenForm (wrapper s) rt) n s =
                  ((StatusCode r, Some (Decoded r), Some e), s1) \<and>
               wrapper s1 = wrapper s \<and>
               tokens E n d s = after_grant (sendTokenForm E (requestForm (wrapper s)) n s1) \<and>
               grants (snd (tokens E n d s)) =
                 grants s @ [refreshTokenForm (wrapper s) rt, requestForm (wrapper s)]"
proof -
  let ?w = "wrapper s"
  from sendTokenForm_rejected [OF assms(6-9), of n] obtain e s1 where
    g: "sendTokenForm E (refreshTokenForm ?w rt) n s = ((StatusCode r, Some (Decoded r), Some e), s1)"
    and w1: "wrapper s1 = ?w" and g1: "grants s1 = grants s @ [refreshTokenForm ?w rt]"
    by blast
  have fb: "sendRefreshTokenForm E n rt s = sendTokenForm E (requestForm ?w) n s1"
    using g w1 assms(5,9) sendRequestTokenForm_with_credentials [of s1 E n]
    unfolding sendRefreshTokenForm_def Let_def by simp
  from not_usable_expiry [OF assms(1) assms(2)] obtain aex aleft where
    a: "expiry_of E (accessToken ?w) (Now E n) = Inr (aex, aleft)" and
    an: "\<not> (accessToken ?w \<noteq> None \<and> (\<not> aex \<or> d \<le> aleft))"
    by blast
  from assms(4) obtain rex rleft where
    r: "expiry_of E (refreshToken ?w) (Now E n) = Inr (rex, rleft)" and
    ru: "\<not> rex \<or> d \<le> rleft"
    unfolding usable_def expiry_of_def using assms(3)
    by (auto split: sum.splits)
  have t: "tokens E n d s = after_grant (sendTokenForm E (requestForm ?w) n s1)"
    using a an r ru assms(3) fb unfolding tokens_def Let_def by auto
  obtain c2 r2 e2 s2 where g2: "sendTokenForm E (requestForm ?w) n s1 = ((c2, r2, e2), s2)"
    by (metis prod_cases3 surj_pair)
  from sendTokenForm_code [OF g2] g1
  have "grants s2 = grants s @ [refreshTokenForm ?w rt, requestForm ?w]" by simp
  moreover have "snd (tokens E n d s) = s2"
    using t g2 unfolding after_grant_def by (auto split: option.splits)
  ultimately show ?thesis using g w1 t by auto
qed


theorem invalid_grant_falls_back_once_witness:
  "grants (snd (tokens (example_env session_lost 3) 1 tokenExpiry
                  (example_state session_wrapper))) =
     [refreshTokenForm session_wrapper refresh_no_exp, clientCredentialsForm session_wrapper] \<and>
   tokens (example_env session_lost 3) 1 tokenExpiry (example_state session_wrapper) =
     after_grant (sendTokenForm (example_env session_lost 3)
        (clientCredentialsForm session_wrapper) 1
        ((example_state session_wrapper)
           \<lparr>grants := [refreshTokenForm session_wrapper refresh_no_exp]\<rparr>))"
proof -
  let ?E = "example_env session_lost 3"
  let ?s = "example_state session_wrapper"
  let ?rf = "refreshTokenForm session_wrapper refresh_no_exp"
  have w: "wrapper ?s = session_wrapper" by (simp add: example_state_def)
  have 1: "\<not> usable ?E (accessToken (wrapper ?s)) (Now ?E 1) tokenExpiry"
    by (simp add: usable_def example_defs session_wrapper_def)
  have 0: "\<forall>t. accessToken (wrapper ?s) = Some t \<longrightarrow> numeric_exp t"
    by (simp add: example_defs session_wrapper_def)
  have 2: "refreshToken (wrapper ?s) = Some refresh_no_exp"
    by (simp add: example_defs session_wrapper_def)
  have 3: "usable ?E (Some refresh_no_exp) (Now ?E 1) tokenExpiry"
    by (simp add: usable_def model_defs example_defs)
  have 4: "haveCredentials (wrapper ?s)"
    by (simp add: model_defs example_defs session_wrapper_def session_lost_def ok_response_def)
  have 5: "roundtrip ?E (grants ?s @ [refreshTokenForm (wrapper ?s) refresh_no_exp]) =
      Responded invalid_grant_response"
    by (simp add: model_defs example_defs session_wrapper_def session_lost_def ok_response_def)
  have 6: "ContentTypeError invalid_grant_response = None"
    and 7: "ReadError invalid_grant_response = None"
    and 8: "Error (Decoded invalid_grant_response) = Some ''invalid_grant''"
    by (simp_all add: example_defs)
  have rq: "requestForm session_wrapper = clientCredentialsForm session_wrapper"
    by (simp add: requestForm_def model_defs example_defs session_wrapper_def)
  from invalid_grant_falls_back_once [OF 1 0 2 3 4 5 6 7 8] obtain e s1 where
    g: "sendTokenForm ?E ?rf 1 ?s =
          ((StatusCode invalid_grant_response, Some (Decoded invalid_grant_response), Some e), s1)"
    and t: "tokens ?E 1 tokenExpiry ?s = after_grant (sendTokenForm ?E (requestForm session_wrapper) 1 s1)"
    and gr: "grants (snd (tokens ?E 1 tokenExpiry ?s)) = grants ?s @ [?rf, requestForm session_wrapper]"
    unfolding w by blast
  have "sendTokenForm ?E ?rf 1 ?s =
      ((400, Some (Decoded invalid_grant_response), Some ''invalid_grant: Session not active''),
       ?s\<lparr>grants := [?rf]\<rparr>)"
    by (simp add: model_defs example_defs session_wrapper_def session_lost_def ok_response_def)
  with g have "s1 = ?s\<lparr>grants := [?rf]\<rparr>" by simp
  with t gr rq show ?thesis by (simp add: example_state_def)
qed

section \<open>Building the wrapper\<close>

lemma lower_capitals:
  "lower (CHR ''B'') = CHR ''b''" "lower (CHR ''R'') = CHR ''r''"
  "lower (CHR ''O'') = CHR ''o''"
  by (simp_all add: lower_def)

lemma EqualFold_first:
  "EqualFold ty (p # t) \<Longrightarrow> lower p \<noteq> CHR ''s'' \<Longrightarrow> lower p \<noteq> CHR ''k'' \<Longrightarrow>
   \<exists>c s. ty = c # s \<and> lower c = lower p"
  by (cases ty) (auto split: if_splits list.splits)

lemma kinds_differ:
  "\<not> (EqualFold ty ''Bearer'' \<and> (EqualFold ty ''Refresh'' \<or> EqualFold ty ''Offline''))"
proof
  assume a: "EqualFold ty ''Bearer'' \<and> (EqualFold ty ''Refresh'' \<or> EqualFold ty ''Offline'')"
  from a EqualFold_first [of ty "CHR ''B''" "''earer''"]
  obtain c s where b: "ty = c # s" "lower c = CHR ''b''"
    by (auto simp: lower_capitals)
  from a EqualFold_first [of ty "CHR ''R''" "''efresh''"]
       EqualFold_first [of ty "CHR ''O''" "''ffline''"] b
  show False
    by (auto simp: lower_capitals)
qed

lemma kinds_exclusive: "\<not> (is_access E t \<and> is_refresh E t)"
  unfolding is_access_def is_refresh_def
  using kinds_differ by (auto split: option.splits)

text \<open>A \<open>typ\<close> written with the long s is of the refresh kind, as in the library.\<close>

lemma EqualFold_long_s:
  "EqualFold (''Refre'' @ [CHR 0xC5, CHR 0xBF] @ ''h'') ''Refresh''"
  by (simp add: lower_def)

lemma parseTokens_access:
  "is_access E x \<Longrightarrow>
   parseTokens E i (x # rest) (a, r) = parseTokens E (i + 1) rest (parsed E x, r)"
  unfolding is_access_def typ_of_def parsed_def
  by (auto split: sum.splits option.splits claim.splits)

lemma parseTokens_refresh:
  "is_refresh E x \<Longrightarrow>
   parseTokens E i (x # rest) (a, r) = parseTokens E (i + 1) rest (a, parsed E x)"
  using kinds_exclusive [of E x]
  unfolding is_access_def is_refresh_def typ_of_def parsed_def
  by (auto split: sum.splits option.splits claim.splits)

lemma parseTokens_rejected:
  "token_rejected E x \<Longrightarrow> \<exists>e. parseTokens E i (x # rest) (a, r) = Inl e"
  unfolding token_rejected_def is_access_def is_refresh_def typ_of_def
  by (auto split: sum.splits option.splits claim.splits)


lemma parseTokens_result:
  "parseTokens E i ts (a, r) = Inr (a', r') \<Longrightarrow>
   a' = (case filter (is_access E) ts of [] \<Rightarrow> a | t # u \<Rightarrow> parsed E (last (t # u))) \<and>
   r' = (case filter (is_refresh E) ts of [] \<Rightarrow> r | t # u \<Rightarrow> parsed E (last (t # u)))"
proof (induction ts arbitrary: i a r)
  case Nil
  then show ?case by simp
next
  case (Cons x rest)
  consider (acc) "is_access E x" | (ref) "is_refresh E x" | (rej) "token_rejected E x"
    unfolding token_rejected_def by blast
  then show ?case
  proof cases
    case acc
    with kinds_exclusive [of E x] have nr: "\<not> is_refresh E x" by simp
    from Cons.prems acc
    have "parseTokens E (i + 1) rest (parsed E x, r) = Inr (a', r')"
      by (simp add: parseTokens_access del: parseTokens.simps)
    from Cons.IH [OF this] acc nr show ?thesis
      by (auto split: list.splits)
  next
    case ref
    with kinds_exclusive [of E x] have na: "\<not> is_access E x" by auto
    from Cons.prems ref
    have "parseTokens E (i + 1) rest (a, parsed E x) = Inr (a', r')"
      by (simp add: parseTokens_refresh del: parseTokens.simps)
    from Cons.IH [OF this] ref na show ?thesis
      by (auto split: list.splits)
  next
    case rej
    from parseTokens_rejected [OF this, of i rest a r] Cons.prems show ?thesis by auto
  qed
qed

lemmas build_defs = Build_def registerMetrics_def registerMetric_def DefaultTokenURL_def
  DefaultClientID_def DefaultClientSecret_def DefaultScopes_def ParseUnverified_def
  lower_def Let_def

lemma Build_Done_tokens:
  "Build E b = Done w \<Longrightarrow>
   parseTokens E 0 (b_tokens b) (None, None) = Inr (accessToken w, refreshToken w)"
  unfolding Build_def Let_def
  by (auto split: if_splits sum.splits option.splits prod.splits outcome.splits)

lemma parsed_Raw: "parsed E t = Some tok \<Longrightarrow> Raw tok = t"
  unfolding parsed_def ParseUnverified_def
  by (auto split: sum.splits)

lemma kept_is_kind:
  "kept E kind ts = Some tok \<Longrightarrow> kind E (Raw tok)"
proof -
  assume k: "kept E kind ts = Some tok"
  then obtain t u where f: "filter (kind E) ts = t # u" and p: "parsed E (last (t # u)) = Some tok"
    unfolding kept_def by (auto split: list.splits)
  have "last (t # u) \<in> set (filter (kind E) ts)"
    unfolding f by (rule last_in_set) simp
  then have "kind E (last (t # u))" by simp
  with parsed_Raw [OF p] show ?thesis by simp
qed




text \<open>
  Claim C9, as stated, fails for a list with more than one token of the refresh kind:
  the \<open>Offline\<close> token is replaced by the \<open>Refresh\<close> token that follows it, and is not
  stored at all.
\<close>

theorem later_token_replaces_offline_counterexample:
  "ParseUnverified (example_env endpoint_down 3) ''O1'' = Inr offline_token \<and>
   Claims offline_token ''typ'' = Some (CString ''Offline'') \<and>
   b_tokens two_refresh_tokens = [''O1'', ''R1''] \<and>
   Build (example_env endpoint_down 3) two_refresh_tokens =
     Done (example_wrapper [] None (Some refresh_no_exp)) \<and>
   refreshToken (example_wrapper [] None (Some refresh_no_exp)) \<noteq> Some offline_token"
  by (simp add: two_refresh_tokens_def build_defs example_defs offline_token_def)

text \<open>
  Claim C9, amended.  After a successful \<open>Build\<close> the refresh token of the wrapper is the
  last of the given tokens whose \<open>typ\<close> is \<open>Refresh\<close> or \<open>Offline\<close>, and the access token
  is the last whose \<open>typ\<close> is \<open>Bearer\<close> (none when there is no such token).  So a given
  token with \<open>typ\<close> \<open>Offline\<close> is never stored as the access token, and is stored as the
  refresh token when no token of the refresh kind follows it; a given token with \<open>typ\<close>
  \<open>Bearer\<close> is never stored as the refresh token, and is stored as the access token when
  no other \<open>Bearer\<close> token follows it.
\<close>

theorem Build_keeps_last_token_of_each_kind:
  assumes "Build E b = Done w"
  shows "accessToken w = kept E is_access (b_tokens b) \<and>
         refreshToken w = kept E is_refresh (b_tokens b) \<and>
         (\<forall>t \<in> set (b_tokens b). typ_of E t = Some ''Offline'' \<longrightarrow>
            accessToken w \<noteq> parsed E t \<and>
            (last (filter (is_refresh E) (b_tokens b)) = t \<longrightarrow> refreshToken w = parsed E t)) \<and>
         (\<forall>t \<in> set (b_tokens b). typ_of E t = Some ''Bearer'' \<longrightarrow>
            refreshToken w \<noteq> parsed E t \<and>
            (last (filter (is_access E) (b_tokens b)) = t \<longrightarrow> accessToken w = parsed E t))"
proof -
  from parseTokens_result [OF Build_Done_tokens [OF assms]]
  have a: "accessToken w = kept E is_access (b_tokens b)"
    and r: "refreshToken w = kept E is_refresh (b_tokens b)"
    unfolding kept_def by simp_all
  have off: "\<And>t. typ_of E t = Some ''Offline'' \<Longrightarrow> is_refresh E t \<and> \<not> is_access E t"
    unfolding is_refresh_def is_access_def by (simp add: lower_def)
  have bea: "\<And>t. typ_of E t = Some ''Bearer'' \<Longrightarrow> is_access E t \<and> \<not> is_refresh E t"
    unfolding is_refresh_def is_access_def by (simp add: lower_def)
  have some: "\<And>t. typ_of E t \<noteq> None \<Longrightarrow> \<exists>tok. parsed E t = Some tok"
    unfolding typ_of_def parsed_def by (auto split: sum.splits)
  have 1: "accessToken w \<noteq> parsed E t" if "typ_of E t = Some ''Offline''" for t
  proof
    assume eq: "accessToken w = parsed E t"
    from some that obtain tok where p: "parsed E t = Some tok" by fastforce
    with eq a have "kept E is_access (b_tokens b) = Some tok" by simp
    from kept_is_kind [OF this] parsed_Raw [OF p] off [OF that] show False by simp
  qed
  have 2: "refreshToken w \<noteq> parsed E t" if "typ_of E t = Some ''Bearer''" for t
  proof
    assume eq: "refreshToken w = parsed E t"
    from some that obtain tok where p: "parsed E t = Some tok" by fastforce
    with eq r have "kept E is_refresh (b_tokens b) = Some tok" by simp
    from kept_is_kind [OF this] parsed_Raw [OF p] bea [OF that] show False by simp
  qed
  have 3: "refreshToken w = parsed E t"
    if "t \<in> set (b_tokens b)" "typ_of E t = Some ''Offline''"
       "last (filter (is_refresh E) (b_tokens b)) = t" for t
  proof -
    from that(1) off [OF that(2)] have "t \<in> set (filter (is_refresh E) (b_tokens b))" by simp
    then obtain x u where "filter (is_refresh E) (b_tokens b) = x # u"
      by (cases "filter (is_refresh E) (b_tokens b)") auto
    with that(3) r show ?thesis unfolding kept_def by auto
  qed
  have 4: "accessToken w = parsed E t"
    if "t \<in> set (b_tokens b)" "typ_of E t = Some ''Bearer''"
       "last (filter (is_access E) (b_tokens b)) = t" for t
  proof -
    from that(1) bea [OF that(2)] have "t \<in> set (filter (is_access E) (b_tokens b))" by simp
    then obtain x u where "filter (is_access E) (b_tokens b) = x # u"
      by (cases "filter (is_access E) (b_tokens b)") auto
    with that(3) a show ?thesis unfolding kept_def by auto
  qed
  from a r 1 2 3 4 show ?thesis by blast
qed

theorem Build_keeps_last_token_of_each_kind_witness:
  "Build (example_env endpoint_down 3) bearer_and_offline =
     Done (example_wrapper [] (Some bearer_no_exp) (Some offline_token)) \<and>
   parsed (example_env endpoint_down 3) ''O1'' = Some offline_token \<and>
   refreshToken (example_wrapper [] (Some bearer_no_exp) (Some offline_token)) =
     parsed (example_env endpoint_down 3) ''O1'' \<and>
   accessToken (example_wrapper [] (Some bearer_no_exp) (Some offline_token)) \<noteq>
     parsed (example_env endpoint_down 3) ''O1''"
proof -
  let ?E = "example_env endpoint_down 3"
  let ?w = "example_wrapper [] (Some bearer_no_exp) (Some offline_token)"
  have b: "Build ?E bearer_and_offline = Done ?w"
    by (simp add: bearer_and_offline_def two_refresh_tokens_def build_defs example_defs
        offline_token_def)
  have t: "typ_of ?E ''O1'' = Some ''Offline''"
    by (simp add: typ_of_def ParseUnverified_def example_env_def decode0_def)
  have l: "last (filter (is_refresh ?E) (b_tokens bearer_and_offline)) = ''O1''"
    by (simp add: bearer_and_offline_def two_refresh_tokens_def is_refresh_def typ_of_def
        ParseUnverified_def example_env_def decode0_def lower_def)
  have m: "''O1'' \<in> set (b_tokens bearer_and_offline)"
    by (simp add: bearer_and_offline_def)
  have p: "parsed ?E ''O1'' = Some offline_token"
    by (simp add: parsed_def ParseUnverified_def example_env_def decode0_def offline_token_def)
  from Build_keeps_last_token_of_each_kind [OF b] m t l
  have "accessToken ?w \<noteq> parsed ?E ''O1'' \<and> refreshToken ?w = parsed ?E ''O1''"
    by blast
  with b p show ?thesis by simp
qed

end
